theory Spec2Isabelle
  imports Main
begin

section \<open>Data of pin-github-stars.py\<close>

text \<open>
  The script is Python 2. Text is modelled as \<^typ>\<open>string\<close>, a list of bytes: a
  byte string is itself, and unicode text decoded from JSON is its UTF-8 encoding.
  A JSON value that may be \<open>null\<close> is an option. The loop variables \<open>page\<close> and
  \<open>last\<close> of the page generator hold the integer 1 at first and, from the second
  iteration on, the strings returned by \<open>m.groups()\<close>: both kinds of value are kept.
\<close>

datatype pyval = PInt int | PStr string

datatype py_error = TypeError | IndexError

text \<open>One entry of GitHub's \<open>/user/starred\<close> listing, with the keys the script reads.\<close>

record star =
  full_name :: string
  html_url :: string
  description :: "string option"
  homepage :: "string option"
  language :: "string option"

text \<open>The query parameters of Pinboard's \<open>posts/add\<close>, as \<open>add_bookmark\<close> builds them.
  A parameter whose value is \<open>None\<close> is \<open>None\<close> here.\<close>

record params =
  p_description :: string
  p_url :: string
  p_extended :: "string option"
  p_tags :: string
  p_replace :: string
  p_auth_token :: string
  p_format :: string

text \<open>A bookmark of Pinboard's \<open>posts/recent\<close> answer; only \<open>description\<close> is read.\<close>

record bookmark =
  b_description :: string

text \<open>The answer of GitHub to one page request: \<open>r.json()\<close>, \<open>r.status_code\<close> and
  the \<open>link\<close> header when there is one.\<close>

record gh_response =
  json :: "star list"
  status_code :: int
  link :: "string option"

text \<open>The answer of Pinboard to one \<open>posts/add\<close> request: \<open>r.json()['result_code']\<close>
  and \<open>r.status_code\<close>. Every answer is taken to have a JSON body with a
  \<open>result_code\<close>.\<close>

record pb_response =
  result_code :: string
  pb_status :: int

text \<open>GitHub answers a request for a sort direction and a page parameter. Pinboard's
  answers are taken in the order of the requests: the n-th \<open>posts/add\<close> request of a
  run gets the n-th answer.\<close>

type_synonym github = "string \<Rightarrow> pyval \<Rightarrow> gh_response"
type_synonym pinboard = "nat \<Rightarrow> pb_response"

text \<open>What a run does that can be seen from outside, in order.\<close>

datatype event =
    Fetch string pyval
  | Publish params
  | Sleep int
  | Info_Getting
  | Info_Adding string
  | Warn_RateLimited
  | Warn_Result string
  | Error_GitHub
  | Error_Pinboard string

record world =
  calls :: nat
  trace :: "event list"

definition emit :: "event \<Rightarrow> world \<Rightarrow> world" where
  "emit e w = w\<lparr>trace := trace w @ [e]\<rparr>"

text \<open>How the process ends: \<open>sys.exit(n)\<close>, an uncaught exception, or \<open>main\<close> returning.\<close>

datatype outcome = Exit int | Raised py_error | Returned

fun exit_code :: "outcome \<Rightarrow> int" where
  "exit_code (Exit n) = n"
| "exit_code (Raised e) = 1"
| "exit_code Returned = 0"

definition SLEEP_TIME :: int where
  "SLEEP_TIME = 3"

definition MAX_RETRIES :: int where
  "MAX_RETRIES = 10"

section \<open>Strings\<close>

text \<open>\<open>.lower()\<close> on ASCII text: the letters A to Z are moved to a to z. On unicode
  text the method also lowers letters outside ASCII; where that can matter (the
  names compared by \<open>filter_stars\<close>) the lowering is a parameter instead. No
  character outside ASCII is lowered to a letter of \<open>done\<close>, so the comparison of a
  result code with \<open>'done'\<close> is decided by this function; the language names
  of GitHub are taken to be ASCII.\<close>

definition lower_char :: "char \<Rightarrow> char" where
  "lower_char c =
     (case map_of (zip ''ABCDEFGHIJKLMNOPQRSTUVWXYZ'' ''abcdefghijklmnopqrstuvwxyz'') c of
        None \<Rightarrow> c
      | Some d \<Rightarrow> d)"

definition lower :: "string \<Rightarrow> string" where
  "lower s = map lower_char s"

text \<open>Comparison of two byte strings by \<open><=\<close>: lexicographic on the byte values.\<close>

fun str_le :: "string \<Rightarrow> string \<Rightarrow> bool" where
  "str_le [] t = True"
| "str_le (a # as) [] = False"
| "str_le (a # as) (b # bs) =
     (if a = b then str_le as bs else (of_char a :: nat) < of_char b)"

text \<open>\<open>page <= last\<close> in Python 2: numbers by value, strings lexicographically, and a
  number below every string.\<close>

fun py_le :: "pyval \<Rightarrow> pyval \<Rightarrow> bool" where
  "py_le (PInt a) (PInt b) = (a \<le> b)"
| "py_le (PStr a) (PStr b) = str_le a b"
| "py_le (PInt a) (PStr b) = True"
| "py_le (PStr a) (PInt b) = False"

text \<open>Truth value of a nullable string in an \<open>if\<close>: \<open>None\<close> and the empty string
  are false.\<close>

fun truthy :: "string option \<Rightarrow> bool" where
  "truthy None = False"
| "truthy (Some s) = (s \<noteq> [])"

section \<open>filter\_stars\<close>

text \<open>
  \<^verbatim>\<open>
  for i in xrange(len(stars)):
      if stars[i]['full_name'].lower() == full_name.lower():
          return stars[:i], True
  return stars, False
  \<close>
  Both names are text decoded from JSON, so \<open>.lower()\<close> here is the lowering of
  unicode text. It is the parameter \<open>to_lower\<close>: the function is modelled for every
  lowering, on text given by its bytes.
\<close>

function filter_stars_from ::
  "(string \<Rightarrow> string) \<Rightarrow> nat \<Rightarrow> star list \<Rightarrow> string \<Rightarrow> star list \<times> bool" where
  "filter_stars_from to_lower i stars fn =
     (if i < length stars then
        (if to_lower (full_name (stars ! i)) = to_lower fn then (take i stars, True)
         else filter_stars_from to_lower (Suc i) stars fn)
      else (stars, False))"
  by pat_completeness auto
termination
  by (relation "measure (\<lambda>(to_lower, i, stars, fn). length stars - i)") auto

definition filter_stars ::
  "(string \<Rightarrow> string) \<Rightarrow> star list \<Rightarrow> string \<Rightarrow> star list \<times> bool" where
  "filter_stars to_lower stars fn = filter_stars_from to_lower 0 stars fn"

declare filter_stars_from.simps [simp del]

section \<open>add\_bookmark\<close>

text \<open>
  \<^verbatim>\<open>
  description = gh_data['description']
  if gh_data['homepage']:
      description += '\n\nProject homepage: {}'.format(gh_data['homepage'])
  tags = 'github-star'
  if gh_data['language']:
      tags = ' '.join((tags, gh_data['language'].lower()))
  params = {'description': gh_data['full_name'], 'url': gh_data['html_url'],
            'extended': description, 'tags': tags, 'replace': 'no',
            'auth_token': pb_api_token, 'format': 'json'}
  \<close>
  \<open>description += ...\<close> on \<open>None\<close> raises \<open>TypeError\<close>.
\<close>

definition add_bookmark_params :: "star \<Rightarrow> string \<Rightarrow> py_error + params" where
  "add_bookmark_params gh_data pb_api_token =
     (case (if truthy (homepage gh_data) then
              (case description gh_data of
                 None \<Rightarrow> Inl TypeError
               | Some d \<Rightarrow>
                   Inr (Some (d @ [CHR 0x0A, CHR 0x0A] @ ''Project homepage: '' @
                          (case homepage gh_data of None \<Rightarrow> [] | Some h \<Rightarrow> h))))
            else Inr (description gh_data)) of
        Inl e \<Rightarrow> Inl e
      | Inr descr \<Rightarrow>
          (let tags = ''github-star'';
               tags = (if truthy (language gh_data)
                       then tags @ '' '' @
                              lower (case language gh_data of None \<Rightarrow> [] | Some l \<Rightarrow> l)
                       else tags)
           in Inr \<lparr>p_description = full_name gh_data,
                    p_url = html_url gh_data,
                    p_extended = descr,
                    p_tags = tags,
                    p_replace = ''no'',
                    p_auth_token = pb_api_token,
                    p_format = ''json''\<rparr>))"

text \<open>The request itself: the next answer of Pinboard is taken, and the request is
  recorded. When building the parameters raises, no request is sent.\<close>

definition add_bookmark ::
  "pinboard \<Rightarrow> star \<Rightarrow> string \<Rightarrow> world \<Rightarrow> py_error + (pb_response \<times> world)" where
  "add_bookmark pb gh_data pb_api_token w =
     (case add_bookmark_params gh_data pb_api_token of
        Inl e \<Rightarrow> Inl e
      | Inr p \<Rightarrow> Inr (pb (calls w), w\<lparr>calls := Suc (calls w), trace := trace w @ [Publish p]\<rparr>))"

section \<open>get\_most\_recent\_bookmark\<close>

text \<open>\<open>return (r.json()['posts'] or None)\<close>: an empty list of posts gives \<open>None\<close>.\<close>

definition get_most_recent_bookmark :: "bookmark list \<Rightarrow> bookmark list option" where
  "get_most_recent_bookmark posts = (if posts = [] then None else Some posts)"

section \<open>The link header\<close>

text \<open>
  \<open>re.search(r'page=(\d+)>; rel="next",.*page=(\d+)>; rel="last"', header)\<close>.
  The search takes the leftmost position where the pattern matches. \<open>\d+\<close> is followed
  by \<open>>\<close>, so it can only take the whole run of digits. \<open>.*\<close> is greedy and does
  not cross a newline: the longest stretch is tried first.
\<close>

definition is_digit :: "char \<Rightarrow> bool" where
  "is_digit c = (c \<in> set ''0123456789'')"

definition rel_next :: string where
  "rel_next = ''>; rel='' @ [CHR 0x22] @ ''next'' @ [CHR 0x22] @ '',''"

definition rel_last :: string where
  "rel_last = ''>; rel='' @ [CHR 0x22] @ ''last'' @ [CHR 0x22]"

fun strip_prefix :: "string \<Rightarrow> string \<Rightarrow> string option" where
  "strip_prefix [] s = Some s"
| "strip_prefix (p # ps) [] = None"
| "strip_prefix (p # ps) (c # cs) = (if p = c then strip_prefix ps cs else None)"

text \<open>\<open>page=(\d+)\<close> and then the text \<open>rel\<close>, at the start of \<open>s\<close>: the group and
  what follows the match.\<close>

definition match_page :: "string \<Rightarrow> string \<Rightarrow> (string \<times> string) option" where
  "match_page rel s =
     (case strip_prefix ''page='' s of
        None \<Rightarrow> None
      | Some t \<Rightarrow>
          (let ds = takeWhile is_digit t; u = dropWhile is_digit t
           in if ds = [] then None
              else (case strip_prefix rel u of
                      None \<Rightarrow> None
                    | Some v \<Rightarrow> Some (ds, v))))"

text \<open>\<open>.*page=(\d+)>; rel="last"\<close> at the start of \<open>s\<close>.\<close>

fun match_dot_star_last :: "string \<Rightarrow> string option" where
  "match_dot_star_last [] = map_option fst (match_page rel_last [])"
| "match_dot_star_last (c # cs) =
     (case (if c = CHR 0x0A then None else match_dot_star_last cs) of
        Some g \<Rightarrow> Some g
      | None \<Rightarrow> map_option fst (match_page rel_last (c # cs)))"

definition match_here :: "string \<Rightarrow> (string \<times> string) option" where
  "match_here s =
     (case match_page rel_next s of
        None \<Rightarrow> None
      | Some (g1, t) \<Rightarrow>
          (case match_dot_star_last t of
             None \<Rightarrow> None
           | Some g2 \<Rightarrow> Some (g1, g2)))"

fun re_search_link :: "string \<Rightarrow> (string \<times> string) option" where
  "re_search_link [] = match_here []"
| "re_search_link (c # cs) =
     (case match_here (c # cs) of
        Some g \<Rightarrow> Some g
      | None \<Rightarrow> re_search_link cs)"

section \<open>get\_github\_stars\<close>

text \<open>
  \<^verbatim>\<open>
  page = 1
  last = 1
  while page <= last:
      params['page'] = page
      r = requests.get(...)
      yield r.json(), r.status_code
      if 'link' in r.headers:
          m = re.search(..., r.headers['link'])
          if m is None:
              break
          page, last = m.groups()
  \<close>
  The generator is a state and a step. \<open>Running page last\<close> is the generator about
  to test \<open>page <= last\<close>; \<open>Stopped\<close> is the generator after \<open>break\<close>. A step
  either yields a response (the request is recorded) with the next state, or ends.
  The statements after \<open>yield\<close> only compute the next values of \<open>page\<close> and
  \<open>last\<close> from the response, so the step computes them at once.
\<close>

datatype gen_state = Running pyval pyval | Stopped

definition after_yield :: "gh_response \<Rightarrow> pyval \<Rightarrow> pyval \<Rightarrow> gen_state" where
  "after_yield r page last' =
     (case link r of
        None \<Rightarrow> Running page last'
      | Some h \<Rightarrow>
          (case re_search_link h of
             None \<Rightarrow> Stopped
           | Some (p, l) \<Rightarrow> Running (PStr p) (PStr l)))"

definition gen_next ::
  "github \<Rightarrow> string \<Rightarrow> gen_state \<Rightarrow> world \<Rightarrow> (gh_response \<times> gen_state \<times> world) option" where
  "gen_next gh sort_dir st w =
     (case st of
        Stopped \<Rightarrow> None
      | Running page last' \<Rightarrow>
          if py_le page last' then
            (let r = gh sort_dir page
             in Some (r, after_yield r page last', emit (Fetch sort_dir page) w))
          else None)"

definition gen_start :: gen_state where
  "gen_start = Running (PInt 1) (PInt 1)"

text \<open>The generator consumed to its end: the responses it yields, in order. The loop
  may run forever, so the function counts the steps it may still take and returns
  \<open>None\<close> when they are used up before the generator ends.\<close>

fun gen_run ::
  "nat \<Rightarrow> github \<Rightarrow> string \<Rightarrow> gen_state \<Rightarrow> world \<Rightarrow> (gh_response list \<times> world) option" where
  "gen_run 0 gh sort_dir st w = None"
| "gen_run (Suc n) gh sort_dir st w =
     (case gen_next gh sort_dir st w of
        None \<Rightarrow> Some ([], w)
      | Some (r, st', w') \<Rightarrow>
          (case gen_run n gh sort_dir st' w' of
             None \<Rightarrow> None
           | Some (rs, w'') \<Rightarrow> Some (r # rs, w'')))"

definition get_github_stars ::
  "nat \<Rightarrow> github \<Rightarrow> string \<Rightarrow> (gh_response list \<times> world) option" where
  "get_github_stars n gh sort_dir = gen_run n gh sort_dir gen_start \<lparr>calls = 0, trace = []\<rparr>"

section \<open>main\<close>

text \<open>
  \<^verbatim>\<open>
  retry = 1
  while s == 429 and retry <= MAX_RETRIES:
      print '[WARN] Pinboard: Rate-limited! Retrying ...'
      sleep(SLEEP_TIME * retry)
      r, s = add_bookmark(star, pb_api_token)
      if r['result_code'].lower() != 'done':
          exit_with_error('Pinboard: {}.'.format(r['result_code']))
      retry += 1
  else:
      if r['result_code'].lower() != 'done':
          print '[WARN] Pinboard: {}.'.format(r['result_code'])
      sleep(SLEEP_TIME)
  \<close>
  The result is \<open>Some\<close> of how the process ended, or \<open>None\<close> when the run goes on.
\<close>

function retry_loop ::
  "pinboard \<Rightarrow> star \<Rightarrow> string \<Rightarrow> pb_response \<Rightarrow> int \<Rightarrow> world \<Rightarrow> outcome option \<times> world" where
  "retry_loop pb star tok r retry w =
     (if pb_status r = 429 \<and> retry \<le> MAX_RETRIES then
        (let w1 = emit (Sleep (SLEEP_TIME * retry)) (emit Warn_RateLimited w)
         in case add_bookmark pb star tok w1 of
              Inl e \<Rightarrow> (Some (Raised e), w1)
            | Inr (r', w2) \<Rightarrow>
                if lower (result_code r') \<noteq> ''done''
                then (Some (Exit 1), emit (Error_Pinboard (result_code r')) w2)
                else retry_loop pb star tok r' (retry + 1) w2)
      else
        (let w1 = (if lower (result_code r) \<noteq> ''done''
                   then emit (Warn_Result (result_code r)) w else w)
         in (None, emit (Sleep SLEEP_TIME) w1)))"
  by pat_completeness auto
termination
  by (relation "measure (\<lambda>(pb, star, tok, r, retry, w). nat (MAX_RETRIES + 1 - retry))") auto

declare retry_loop.simps [simp del]

text \<open>The body of \<open>for star in result\<close> for one star.\<close>

definition publish :: "pinboard \<Rightarrow> string \<Rightarrow> star \<Rightarrow> world \<Rightarrow> outcome option \<times> world" where
  "publish pb tok star w =
     (let w0 = emit (Info_Adding (full_name star)) w
      in case add_bookmark pb star tok w0 of
           Inl e \<Rightarrow> (Some (Raised e), w0)
         | Inr (r, w1) \<Rightarrow> retry_loop pb star tok r 1 w1)"

fun publish_all :: "pinboard \<Rightarrow> string \<Rightarrow> star list \<Rightarrow> world \<Rightarrow> outcome option \<times> world" where
  "publish_all pb tok [] w = (None, w)"
| "publish_all pb tok (star # rest) w =
     (case publish pb tok star w of
        (Some out, w') \<Rightarrow> (Some out, w')
      | (None, w') \<Rightarrow> publish_all pb tok rest w')"

text \<open>
  \<^verbatim>\<open>
  for result, status in get_github_stars(gh_headers, sort_dir):
      if status != 200:
          exit_with_error('GitHub: {}'.format(result))
      if most_recent is not None:
          result, hit_most_recent = filter_stars(result, most_recent)
      for star in result:
          ...
      if hit_most_recent:
          sys.exit(0)
  \<close>
  The first argument is the lowering that \<open>filter_stars\<close> uses. The second
  bounds the number of pages the loop may still ask for; \<open>None\<close> is the loop still
  running when the bound is used up.
\<close>

fun page_loop ::
  "(string \<Rightarrow> string) \<Rightarrow> nat \<Rightarrow> github \<Rightarrow> pinboard \<Rightarrow> string \<Rightarrow> string \<Rightarrow>
   string option \<Rightarrow> gen_state \<Rightarrow> bool \<Rightarrow> world \<Rightarrow> (outcome \<times> world) option" where
  "page_loop to_lower 0 gh pb tok sort_dir most_recent st hit_most_recent w = None"
| "page_loop to_lower (Suc n) gh pb tok sort_dir most_recent st hit_most_recent w =
     (case gen_next gh sort_dir st w of
        None \<Rightarrow> Some (Returned, w)
      | Some (r, st', w1) \<Rightarrow>
          if status_code r \<noteq> 200 then Some (Exit 1, emit Error_GitHub w1)
          else
            (let (result, hit) =
                   (case most_recent of
                      None \<Rightarrow> (json r, hit_most_recent)
                    | Some t \<Rightarrow> filter_stars to_lower (json r) t)
             in case publish_all pb tok result w1 of
                  (Some out, w2) \<Rightarrow> Some (out, w2)
                | (None, w2) \<Rightarrow>
                    if hit then Some (Exit 0, w2)
                    else page_loop to_lower n gh pb tok sort_dir most_recent st' hit w2))"

text \<open>
  \<^verbatim>\<open>
  sort_dir = 'desc'
  most_recent = get_most_recent_bookmark(pb_api_token)
  hit_most_recent = False
  if most_recent is not None:
      most_recent = most_recent[0]['description']
  else:
      sort_dir = 'asc'
  \<close>
  The pair is \<open>(sort_dir, most_recent)\<close> after these lines.
\<close>

definition resolve_cursor :: "bookmark list \<Rightarrow> py_error + (string \<times> string option)" where
  "resolve_cursor posts =
     (case get_most_recent_bookmark posts of
        Some ps \<Rightarrow>
          (case ps of
             [] \<Rightarrow> Inl IndexError
           | b # bs \<Rightarrow> Inr (''desc'', Some (b_description b)))
      | None \<Rightarrow> Inr (''asc'', None))"

text \<open>\<open>main\<close> from the query of the most recent bookmark on; \<open>posts\<close> is Pinboard's
  answer to that query.\<close>

definition main ::
  "(string \<Rightarrow> string) \<Rightarrow> nat \<Rightarrow> github \<Rightarrow> pinboard \<Rightarrow> string \<Rightarrow> bookmark list \<Rightarrow>
   (outcome \<times> world) option" where
  "main to_lower n gh pb tok posts =
     (case resolve_cursor posts of
        Inl e \<Rightarrow> Some (Raised e, \<lparr>calls = 0, trace = []\<rparr>)
      | Inr (sort_dir, most_recent) \<Rightarrow>
          page_loop to_lower n gh pb tok sort_dir most_recent gen_start False
            (emit Info_Getting \<lparr>calls = 0, trace = []\<rparr>))"

section \<open>Reading a trace\<close>

text \<open>The page parameters requested from GitHub, in order.\<close>

fun fetched :: "event list \<Rightarrow> pyval list" where
  "fetched [] = []"
| "fetched (Fetch d p # es) = p # fetched es"
| "fetched (e # es) = fetched es"

text \<open>The \<open>posts/add\<close> requests sent to Pinboard, in order.\<close>

fun published :: "event list \<Rightarrow> params list" where
  "published [] = []"
| "published (Publish p # es) = p # published es"
| "published (e # es) = published es"

text \<open>The pauses, in order.\<close>

fun slept :: "event list \<Rightarrow> int list" where
  "slept [] = []"
| "slept (Sleep n # es) = n # slept es"
| "slept (e # es) = slept es"

text \<open>The names of the stars whose publishing was begun, in order.\<close>

fun started :: "event list \<Rightarrow> string list" where
  "started [] = []"
| "started (Info_Adding n # es) = n # started es"
| "started (e # es) = started es"

text \<open>The events of the retries numbered \<open>j\<close> to \<open>MAX_RETRIES\<close> of one request: the
  warning, the pause of \<open>SLEEP_TIME * k\<close> and the request again.\<close>

definition retry_events :: "params \<Rightarrow> int \<Rightarrow> event list" where
  "retry_events p j =
     concat (map (\<lambda>k. [Warn_RateLimited, Sleep (SLEEP_TIME * k), Publish p]) [j..MAX_RETRIES])"

section \<open>A GitHub that serves a list of stars\<close>

text \<open>
  The starred repositories of a user, oldest first, served \<open>per_page\<close> at a time in
  the direction asked for. A listing of more than one page carries GitHub's
  \<open>Link\<close> header: \<open>next\<close> and \<open>last\<close> on every page but the last, \<open>first\<close>
  and \<open>prev\<close> on every page but the first. A listing of one page carries none. A
  page beyond the end is empty.
\<close>

function dec :: "nat \<Rightarrow> string" where
  "dec n =
     (if n < 10 then [''0123456789'' ! n]
      else dec (n div 10) @ [''0123456789'' ! (n mod 10)])"
  by pat_completeness auto
termination
  by (relation "measure id") auto

declare dec.simps [simp del]

function chunks :: "nat \<Rightarrow> 'a list \<Rightarrow> 'a list list" where
  "chunks n xs =
     (if n = 0 \<or> length xs \<le> n then [xs] else take n xs # chunks n (drop n xs))"
  by pat_completeness auto
termination
  by (relation "measure (\<lambda>(n, xs). length xs)") auto

declare chunks.simps [simp del]

definition link_to :: "string \<Rightarrow> nat \<Rightarrow> string \<Rightarrow> string" where
  "link_to sort_dir k rel =
     ''<https://api.github.com/user/starred?direction='' @ sort_dir @ ''&page='' @ dec k @
     ''>; rel='' @ [CHR 0x22] @ rel @ [CHR 0x22]"

definition link_header :: "string \<Rightarrow> nat \<Rightarrow> nat \<Rightarrow> string option" where
  "link_header sort_dir k n =
     (if n \<le> 1 then None
      else if k < n then
        Some (link_to sort_dir (k + 1) ''next'' @ '', '' @ link_to sort_dir n ''last'' @
              (if 1 < k
               then '', '' @ link_to sort_dir 1 ''first'' @ '', '' @
                    link_to sort_dir (k - 1) ''prev''
               else []))
      else Some (link_to sort_dir 1 ''first'' @ '', '' @ link_to sort_dir (k - 1) ''prev''))"

definition github_listing :: "nat \<Rightarrow> star list \<Rightarrow> github" where
  "github_listing per_page stars sort_dir page =
     (let pages = chunks per_page (if sort_dir = ''asc'' then stars else rev stars);
          n = length pages
      in case find (\<lambda>k. page = PInt (int k) \<or> page = PStr (dec k)) [1 ..< Suc n] of
           None \<Rightarrow> \<lparr>json = [], status_code = 200, link = None\<rparr>
         | Some k \<Rightarrow>
             \<lparr>json = pages ! (k - 1), status_code = 200, link = link_header sort_dir k n\<rparr>)"

section \<open>Inputs used below\<close>

text \<open>Stars, with and without description, homepage and language.\<close>

definition repo :: "string \<Rightarrow> star" where
  "repo name =
     \<lparr>full_name = ''octo/'' @ name, html_url = ''https://github.com/octo/'' @ name,
      description = Some name, homepage = None, language = None\<rparr>"

definition ten_stars :: "star list" where
  "ten_stars = map repo [''a'', ''b'', ''c'', ''d'', ''e'', ''f'', ''g'', ''h'', ''i'', ''j'']"

definition alpha :: star where
  "alpha =
     \<lparr>full_name = ''octo/Alpha'', html_url = ''https://github.com/octo/Alpha'',
      description = Some ''first'', homepage = None, language = Some ''Python''\<rparr>"

definition beta :: star where
  "beta =
     \<lparr>full_name = ''octo/Beta'', html_url = ''https://github.com/octo/Beta'',
      description = None, homepage = Some [], language = None\<rparr>"

definition gamma :: star where
  "gamma =
     \<lparr>full_name = ''octo/Gamma'', html_url = ''https://github.com/octo/Gamma'',
      description = Some ''third'', homepage = Some ''https://gamma.example'',
      language = Some ''C''\<rparr>"

definition delta :: star where
  "delta =
     \<lparr>full_name = ''octo/Delta'', html_url = ''https://github.com/octo/Delta'',
      description = None, homepage = Some ''https://delta.example'', language = None\<rparr>"

definition epsilon :: star where
  "epsilon =
     \<lparr>full_name = ''octo/Epsilon'', html_url = ''https://github.com/octo/Epsilon'',
      description = None, homepage = Some ''https://epsilon.example'',
      language = Some ''Rust''\<rparr>"

text \<open>A lowering of text in UTF-8 that knows, beyond the ASCII letters, two characters
  outside ASCII: the capital E with acute accent (bytes C3 89) is lowered to the small
  one (bytes C3 A9), and the Kelvin sign (bytes E2 84 AA) to the letter k. Two stars
  to try it on.\<close>

definition e_acute_upper :: string where
  "e_acute_upper = [CHR 0xC3, CHR 0x89]"

definition e_acute_lower :: string where
  "e_acute_lower = [CHR 0xC3, CHR 0xA9]"

definition kelvin_sign :: string where
  "kelvin_sign = [CHR 0xE2, CHR 0x84, CHR 0xAA]"

fun lower_utf8_sample :: "string \<Rightarrow> string" where
  "lower_utf8_sample (a # b # c # cs) =
     (if [a, b, c] = kelvin_sign then CHR ''k'' # lower_utf8_sample cs
      else if [a, b] = e_acute_upper then e_acute_lower @ lower_utf8_sample (c # cs)
      else lower_char a # lower_utf8_sample (b # c # cs))"
| "lower_utf8_sample [a, b] =
     (if [a, b] = e_acute_upper then e_acute_lower else [lower_char a, lower_char b])"
| "lower_utf8_sample [a] = [lower_char a]"
| "lower_utf8_sample [] = []"

definition ecole :: star where
  "ecole =
     \<lparr>full_name = ''octo/'' @ e_acute_upper @ ''cole'',
      html_url = ''https://github.com/octo/%C3%89cole'',
      description = None, homepage = None, language = None\<rparr>"

definition kelvin :: star where
  "kelvin =
     \<lparr>full_name = ''octo/kelvin'', html_url = ''https://github.com/octo/kelvin'',
      description = None, homepage = None, language = None\<rparr>"

text \<open>The Pinboard token, the world before a run, and the requests that
  \<open>add_bookmark\<close> builds for some of the stars.\<close>

definition token :: string where
  "token = ''octo:0123456789ABCDEF''"

definition w_start :: world where
  "w_start = \<lparr>calls = 0, trace = []\<rparr>"

definition alpha_params :: params where
  "alpha_params =
     \<lparr>p_description = ''octo/Alpha'', p_url = ''https://github.com/octo/Alpha'',
      p_extended = Some ''first'', p_tags = ''github-star python'', p_replace = ''no'',
      p_auth_token = ''octo:0123456789ABCDEF'', p_format = ''json''\<rparr>"

definition gamma_params :: params where
  "gamma_params =
     \<lparr>p_description = ''octo/Gamma'', p_url = ''https://github.com/octo/Gamma'',
      p_extended = Some (''third'' @ [CHR 0x0A, CHR 0x0A] @
                         ''Project homepage: https://gamma.example''),
      p_tags = ''github-star c'', p_replace = ''no'',
      p_auth_token = ''octo:0123456789ABCDEF'', p_format = ''json''\<rparr>"

definition repo_params :: "string \<Rightarrow> params" where
  "repo_params name =
     \<lparr>p_description = ''octo/'' @ name, p_url = ''https://github.com/octo/'' @ name,
      p_extended = Some name, p_tags = ''github-star'', p_replace = ''no'',
      p_auth_token = token, p_format = ''json''\<rparr>"

text \<open>A Pinboard that accepts every request; one that refuses every bookmark without
  limiting the rate; one that answers every request with 429 and an error code; one
  that answers every request with 429 and \<open>done\<close>; and one that answers the first
  ten requests with 429 and \<open>done\<close> and every later one with 429 and an error
  code.\<close>

definition pb_done :: pinboard where
  "pb_done k = \<lparr>result_code = ''done'', pb_status = 200\<rparr>"

definition pb_exists :: pinboard where
  "pb_exists k = \<lparr>result_code = ''item already exists'', pb_status = 200\<rparr>"

definition pb_limited :: pinboard where
  "pb_limited k = \<lparr>result_code = ''rate limit exceeded'', pb_status = 429\<rparr>"

definition pb_limited_done :: pinboard where
  "pb_limited_done k = \<lparr>result_code = ''done'', pb_status = 429\<rparr>"

definition pb_limited_ten :: pinboard where
  "pb_limited_ten k =
     (if k < 10 then \<lparr>result_code = ''done'', pb_status = 429\<rparr>
      else \<lparr>result_code = ''rate limit exceeded'', pb_status = 429\<rparr>)"

text \<open>Two stars served one per page, and the same listing with an error on the second
  page; ten stars served three per page; listings of ten pages, of nine pages and of
  one page; three stars on one page; and the \<open>Link\<close> header of the first of ten
  pages.\<close>

definition gh_two_pages :: github where
  "gh_two_pages = github_listing 1 [alpha, gamma]"

definition gh_fail_second :: github where
  "gh_fail_second sort_dir page =
     (if page = PInt 1 then gh_two_pages sort_dir page
      else \<lparr>json = [], status_code = 502, link = None\<rparr>)"

definition gh_four_pages :: github where
  "gh_four_pages = github_listing 3 ten_stars"

definition gh_ten_pages :: github where
  "gh_ten_pages = github_listing 1 ten_stars"

definition gh_nine_pages :: github where
  "gh_nine_pages = github_listing 1 (take 9 ten_stars)"

definition gh_one_page :: github where
  "gh_one_page = github_listing 30 [alpha, gamma]"

definition gh_three :: github where
  "gh_three = github_listing 30 (map repo [''a'', ''b'', ''c''])"

definition ten_pages_first_link :: string where
  "ten_pages_first_link =
     ''<https://api.github.com/user/starred?direction=asc&page=2>; rel='' @ [CHR 0x22] @
     ''next'' @ [CHR 0x22] @
     '', <https://api.github.com/user/starred?direction=asc&page=10>; rel='' @ [CHR 0x22] @
     ''last'' @ [CHR 0x22]"

section \<open>Properties of filter\_stars\<close>

lemma filter_stars_from_found:
  "i \<le> k \<Longrightarrow> k < length stars \<Longrightarrow> lw (full_name (stars ! k)) = lw fn \<Longrightarrow>
   (\<forall>j. i \<le> j \<and> j < k \<longrightarrow> lw (full_name (stars ! j)) \<noteq> lw fn) \<Longrightarrow>
   filter_stars_from lw i stars fn = (take k stars, True)"
proof (induction lw i stars fn rule: filter_stars_from.induct)
  case (1 lw i stars fn)
  show ?case
  proof (cases "i = k")
    case True
    with "1.prems" show ?thesis
      by (simp add: filter_stars_from.simps [of lw k stars fn])
  next
    case False
    with "1.prems" have lt: "i < k" and nomatch: "lw (full_name (stars ! i)) \<noteq> lw fn"
      by auto
    from lt "1.prems" have ilen: "i < length stars" by simp
    have "filter_stars_from lw (Suc i) stars fn = (take k stars, True)"
      using "1.IH" [OF ilen nomatch] lt "1.prems" by auto
    with ilen nomatch show ?thesis
      by (simp add: filter_stars_from.simps [of lw i stars fn])
  qed
qed

lemma filter_stars_from_absent:
  "(\<forall>j. i \<le> j \<and> j < length stars \<longrightarrow> lw (full_name (stars ! j)) \<noteq> lw fn) \<Longrightarrow>
   filter_stars_from lw i stars fn = (stars, False)"
proof (induction lw i stars fn rule: filter_stars_from.induct)
  case (1 lw i stars fn)
  show ?case
  proof (cases "i < length stars")
    case True
    with "1.prems" have nomatch: "lw (full_name (stars ! i)) \<noteq> lw fn" by auto
    have "filter_stars_from lw (Suc i) stars fn = (stars, False)"
      using "1.IH" [OF True nomatch] "1.prems" by auto
    with True nomatch show ?thesis
      by (simp add: filter_stars_from.simps [of lw i stars fn])
  next
    case False
    then show ?thesis
      by (simp add: filter_stars_from.simps [of lw i stars fn])
  qed
qed

text \<open>
  Claim C3. For every page, every target identifier and every lowering \<open>lw\<close> of
  text (the \<open>.lower()\<close> of the code, whatever it does to letters outside ASCII):
  when \<open>k\<close> is the index of the first entry whose \<open>full_name\<close> equals the
  target after lowering both, \<open>filter_stars\<close> returns the entries strictly before
  index \<open>k\<close> together with \<open>True\<close>; when no entry matches, it returns the
  whole page unchanged together with \<open>False\<close>.
\<close>

theorem filter_stars_correct:
  "(k < length stars \<and> lw (full_name (stars ! k)) = lw fn \<and>
      (\<forall>j < k. lw (full_name (stars ! j)) \<noteq> lw fn)
      \<longrightarrow> filter_stars lw stars fn = (take k stars, True)) \<and>
   ((\<forall>j < length stars. lw (full_name (stars ! j)) \<noteq> lw fn)
      \<longrightarrow> filter_stars lw stars fn = (stars, False))"
proof (intro conjI impI)
  assume "k < length stars \<and> lw (full_name (stars ! k)) = lw fn \<and>
      (\<forall>j < k. lw (full_name (stars ! j)) \<noteq> lw fn)"
  then show "filter_stars lw stars fn = (take k stars, True)"
    unfolding filter_stars_def
    by (intro filter_stars_from_found) auto
next
  assume "\<forall>j < length stars. lw (full_name (stars ! j)) \<noteq> lw fn"
  then show "filter_stars lw stars fn = (stars, False)"
    unfolding filter_stars_def
    by (intro filter_stars_from_absent) auto
qed

theorem filter_stars_correct_witness:
  "filter_stars lower [alpha, beta, gamma, delta] ''OCTO/gamma'' = ([alpha, beta], True) \<and>
   filter_stars lower [alpha, beta, gamma, delta] ''octo/omega'' =
     ([alpha, beta, gamma, delta], False) \<and>
   filter_stars lower_utf8_sample [alpha, ecole, gamma] (''OCTO/'' @ e_acute_lower @ ''COLE'') =
     ([alpha], True) \<and>
   filter_stars lower_utf8_sample [alpha, kelvin] (''octo/'' @ kelvin_sign @ ''elvin'') =
     ([alpha], True)"
proof -
  have a: "filter_stars lower [alpha, beta, gamma, delta] ''OCTO/gamma'' = ([alpha, beta], True)"
    using filter_stars_correct [where k = 2 and stars = "[alpha, beta, gamma, delta]"
          and lw = lower and fn = "''OCTO/gamma''"]
    by (simp add: alpha_def beta_def gamma_def delta_def lower_def lower_char_def
        numeral_2_eq_2 All_less_Suc)
  have b: "filter_stars lower [alpha, beta, gamma, delta] ''octo/omega'' =
     ([alpha, beta, gamma, delta], False)"
    using filter_stars_correct [where k = 0 and stars = "[alpha, beta, gamma, delta]"
          and lw = lower and fn = "''octo/omega''"]
    by (simp add: alpha_def beta_def gamma_def delta_def lower_def lower_char_def
        numeral_3_eq_3 numeral_2_eq_2 All_less_Suc)
  have c: "filter_stars lower_utf8_sample [alpha, ecole, gamma]
             (''OCTO/'' @ e_acute_lower @ ''COLE'') = ([alpha], True)"
    using filter_stars_correct [where k = 1 and stars = "[alpha, ecole, gamma]"
          and lw = lower_utf8_sample and fn = "''OCTO/'' @ e_acute_lower @ ''COLE''"]
    by (simp add: alpha_def ecole_def e_acute_upper_def e_acute_lower_def kelvin_sign_def
        lower_char_def)
  have d: "filter_stars lower_utf8_sample [alpha, kelvin] (''octo/'' @ kelvin_sign @ ''elvin'') =
     ([alpha], True)"
    using filter_stars_correct [where k = 1 and stars = "[alpha, kelvin]"
          and lw = lower_utf8_sample and fn = "''octo/'' @ kelvin_sign @ ''elvin''"]
    by (simp add: alpha_def kelvin_def e_acute_upper_def e_acute_lower_def kelvin_sign_def
        lower_char_def)
  from a b c d show ?thesis by simp
qed

section \<open>Properties of add\_bookmark\<close>

text \<open>
  Where the request is built, its fields are those of the docstring of
  \<open>add_bookmark\<close>: this covers every star that has a description, and every star
  whose homepage is \<open>None\<close> or empty.
\<close>

lemma add_bookmark_params_fields:
  "description s \<noteq> None \<or> \<not> truthy (homepage s) \<Longrightarrow>
   add_bookmark_params s tok =
     Inr \<lparr>p_description = full_name s,
          p_url = html_url s,
          p_extended =
            (case homepage s of
               None \<Rightarrow> description s
             | Some h \<Rightarrow>
                 if h = [] then description s
                 else map_option (\<lambda>d. d @ [CHR 0x0A, CHR 0x0A] @ ''Project homepage: '' @ h)
                        (description s)),
          p_tags =
            (case language s of
               None \<Rightarrow> ''github-star''
             | Some l \<Rightarrow> if l = [] then ''github-star'' else ''github-star '' @ lower l),
          p_replace = ''no'',
          p_auth_token = tok,
          p_format = ''json''\<rparr>"
  by (cases "homepage s"; cases "description s"; cases "language s")
     (auto simp: add_bookmark_params_def)

text \<open>
  Claim C8, at a star the listing can hold: no description, a homepage and a language.
  \<open>add_bookmark\<close> raises \<open>TypeError\<close> at \<open>description += ...\<close>: there is no
  request with \<open>extended\<close> set to the description and the homepage line. A first run
  whose only page holds this star ends with the exception, before any request to
  Pinboard.
\<close>

theorem add_bookmark_no_request:
  "add_bookmark_params epsilon token = Inl TypeError \<and>
   main lower 1 (github_listing 30 [epsilon]) pb_done token [] =
     Some (Raised TypeError,
           \<lparr>calls = 0,
            trace = [Info_Getting, Fetch ''asc'' (PInt 1), Info_Adding ''octo/Epsilon'']\<rparr>)"
  by code_simp

text \<open>
  Claim C10. For every star whose description is \<open>None\<close> while its homepage is
  present (not \<open>None\<close> and not empty, which is what \<open>if gh_data['homepage']\<close>
  tests), building the request fails with \<open>TypeError\<close>; \<open>add_bookmark\<close> sends no
  request, and publishing the star ends the run with the exception.
\<close>

theorem add_bookmark_params_null_description:
  "description s = None \<and> truthy (homepage s) \<longrightarrow>
     add_bookmark_params s tok = Inl TypeError \<and>
     add_bookmark pb s tok w = Inl TypeError \<and>
     publish pb tok s w = (Some (Raised TypeError), emit (Info_Adding (full_name s)) w)"
  by (simp add: add_bookmark_params_def add_bookmark_def publish_def)

theorem add_bookmark_params_null_description_witness:
  "description delta = None \<and> truthy (homepage delta) \<and>
   add_bookmark_params delta token = Inl TypeError \<and>
   add_bookmark pb_done delta token w_start = Inl TypeError \<and>
   publish pb_done token delta w_start =
     (Some (Raised TypeError), \<lparr>calls = 0, trace = [Info_Adding ''octo/Delta'']\<rparr>)"
  using add_bookmark_params_null_description [of delta token pb_done w_start]
  by (simp add: delta_def w_start_def emit_def)

section \<open>Properties of the retry loop\<close>

lemma retry_loop_else:
  "\<not> (pb_status r = 429 \<and> retry \<le> MAX_RETRIES) \<Longrightarrow>
   retry_loop pb star tok r retry w =
     (None, emit (Sleep SLEEP_TIME)
              (if lower (result_code r) \<noteq> ''done'' then emit (Warn_Result (result_code r)) w
               else w))"
  by (subst retry_loop.simps) (auto simp: Let_def)

lemma retry_loop_step:
  "pb_status r = 429 \<Longrightarrow> retry \<le> MAX_RETRIES \<Longrightarrow> add_bookmark_params star tok = Inr p \<Longrightarrow>
   retry_loop pb star tok r retry w =
     (if lower (result_code (pb (calls w))) \<noteq> ''done''
      then (Some (Exit 1),
            w\<lparr>calls := Suc (calls w),
              trace := trace w @ [Warn_RateLimited, Sleep (SLEEP_TIME * retry), Publish p,
                                 Error_Pinboard (result_code (pb (calls w)))]\<rparr>)
      else retry_loop pb star tok (pb (calls w)) (retry + 1)
             (w\<lparr>calls := Suc (calls w),
               trace := trace w @ [Warn_RateLimited, Sleep (SLEEP_TIME * retry), Publish p]\<rparr>))"
  by (subst retry_loop.simps) (simp add: Let_def add_bookmark_def emit_def)

lemma publish_first:
  "add_bookmark_params star tok = Inr p \<Longrightarrow>
   publish pb tok star w =
     retry_loop pb star tok (pb (calls w)) 1
       (w\<lparr>calls := Suc (calls w), trace := trace w @ [Info_Adding (full_name star), Publish p]\<rparr>)"
  by (simp add: publish_def add_bookmark_def emit_def Let_def)

lemma retry_events_step:
  "j \<le> MAX_RETRIES \<Longrightarrow>
   retry_events p j = [Warn_RateLimited, Sleep (SLEEP_TIME * j), Publish p] @ retry_events p (j + 1)"
  by (simp add: retry_events_def upto_rec1)

lemma retry_events_end: "MAX_RETRIES < j \<Longrightarrow> retry_events p j = []"
  by (simp add: retry_events_def)

lemma retry_loop_fatal_from:
  assumes p: "add_bookmark_params star tok = Inr p"
  shows "j \<le> MAX_RETRIES \<Longrightarrow> pb_status r = 429 \<Longrightarrow>
    (\<forall>k. j \<le> k \<and> k < MAX_RETRIES \<longrightarrow>
       pb_status (pb (calls w + nat (k - j))) = 429 \<and>
       lower (result_code (pb (calls w + nat (k - j)))) = ''done'') \<Longrightarrow>
    lower (result_code (pb (calls w + nat (MAX_RETRIES - j)))) \<noteq> ''done'' \<Longrightarrow>
    retry_loop pb star tok r j w =
      (Some (Exit 1),
       w\<lparr>calls := calls w + nat (MAX_RETRIES - j) + 1,
         trace := trace w @ retry_events p j @
                [Error_Pinboard (result_code (pb (calls w + nat (MAX_RETRIES - j))))]\<rparr>)"
proof (induction "nat (MAX_RETRIES - j)" arbitrary: j r w)
  case 0
  then have j: "j = MAX_RETRIES" by simp
  with 0 show ?case
    by (simp add: retry_loop_step [OF _ _ p] retry_events_step retry_events_end)
next
  case (Suc n)
  then have lt: "j < MAX_RETRIES" by simp
  let ?w = "w\<lparr>calls := Suc (calls w),
             trace := trace w @ [Warn_RateLimited, Sleep (SLEEP_TIME * j), Publish p]\<rparr>"
  from Suc.prems(3) lt have here: "pb_status (pb (calls w)) = 429"
      "lower (result_code (pb (calls w))) = ''done''"
    by (auto dest: spec [of _ j])
  have n: "n = nat (MAX_RETRIES - (j + 1))" using Suc.hyps(2) by simp
  have shift: "Suc (calls w + nat (k - (j + 1))) = calls w + nat (k - j)" if "j + 1 \<le> k" for k
    using that by simp
  have rest: "\<forall>k. j + 1 \<le> k \<and> k < MAX_RETRIES \<longrightarrow>
       pb_status (pb (calls ?w + nat (k - (j + 1)))) = 429 \<and>
       lower (result_code (pb (calls ?w + nat (k - (j + 1))))) = ''done''"
  proof (intro allI impI)
    fix k assume k: "j + 1 \<le> k \<and> k < MAX_RETRIES"
    then have "pb_status (pb (calls w + nat (k - j))) = 429 \<and>
       lower (result_code (pb (calls w + nat (k - j)))) = ''done''"
      using Suc.prems(3) by simp
    with k show "pb_status (pb (calls ?w + nat (k - (j + 1)))) = 429 \<and>
       lower (result_code (pb (calls ?w + nat (k - (j + 1))))) = ''done''"
      by (simp add: shift)
  qed
  have idx: "Suc (calls w + nat (MAX_RETRIES - (j + 1))) = calls w + nat (MAX_RETRIES - j)"
    using lt by (simp add: shift)
  have final: "lower (result_code (pb (calls ?w + nat (MAX_RETRIES - (j + 1))))) \<noteq> ''done''"
    using Suc.prems(4) by (simp add: idx)
  have "retry_loop pb star tok (pb (calls w)) (j + 1) ?w =
      (Some (Exit 1),
       ?w\<lparr>calls := calls ?w + nat (MAX_RETRIES - (j + 1)) + 1,
         trace := trace ?w @ retry_events p (j + 1) @
                [Error_Pinboard (result_code (pb (calls ?w + nat (MAX_RETRIES - (j + 1)))))]\<rparr>)"
    using Suc.hyps(1) [OF n _ here(1) rest final] lt by simp
  then show ?case
    using Suc.prems(1,2) here
    by (simp add: retry_loop_step [OF _ _ p] retry_events_step idx)
qed

lemma retry_loop_exhausted_from:
  assumes p: "add_bookmark_params star tok = Inr p"
  shows "j \<le> MAX_RETRIES + 1 \<Longrightarrow> pb_status r = 429 \<Longrightarrow> lower (result_code r) = ''done'' \<Longrightarrow>
    (\<forall>k. j \<le> k \<and> k \<le> MAX_RETRIES \<longrightarrow>
       pb_status (pb (calls w + nat (k - j))) = 429 \<and>
       lower (result_code (pb (calls w + nat (k - j)))) = ''done'') \<Longrightarrow>
    retry_loop pb star tok r j w =
      (None,
       w\<lparr>calls := calls w + nat (MAX_RETRIES + 1 - j),
         trace := trace w @ retry_events p j @ [Sleep SLEEP_TIME]\<rparr>)"
proof (induction "nat (MAX_RETRIES + 1 - j)" arbitrary: j r w)
  case 0
  then have j: "MAX_RETRIES < j" by simp
  with 0 show ?case
    by (simp add: retry_loop_else retry_events_end emit_def)
next
  case (Suc n)
  then have le: "j \<le> MAX_RETRIES" by simp
  let ?w = "w\<lparr>calls := Suc (calls w),
             trace := trace w @ [Warn_RateLimited, Sleep (SLEEP_TIME * j), Publish p]\<rparr>"
  from Suc.prems(4) le have here: "pb_status (pb (calls w)) = 429"
      "lower (result_code (pb (calls w))) = ''done''"
    by (auto dest: spec [of _ j])
  have n: "n = nat (MAX_RETRIES + 1 - (j + 1))" using Suc.hyps(2) by simp
  have shift: "Suc (calls w + nat (k - (j + 1))) = calls w + nat (k - j)" if "j + 1 \<le> k" for k
    using that by simp
  have rest: "\<forall>k. j + 1 \<le> k \<and> k \<le> MAX_RETRIES \<longrightarrow>
       pb_status (pb (calls ?w + nat (k - (j + 1)))) = 429 \<and>
       lower (result_code (pb (calls ?w + nat (k - (j + 1))))) = ''done''"
  proof (intro allI impI)
    fix k assume k: "j + 1 \<le> k \<and> k \<le> MAX_RETRIES"
    then have "pb_status (pb (calls w + nat (k - j))) = 429 \<and>
       lower (result_code (pb (calls w + nat (k - j)))) = ''done''"
      using Suc.prems(4) by simp
    with k show "pb_status (pb (calls ?w + nat (k - (j + 1)))) = 429 \<and>
       lower (result_code (pb (calls ?w + nat (k - (j + 1))))) = ''done''"
      by (simp add: shift)
  qed
  have "retry_loop pb star tok (pb (calls w)) (j + 1) ?w =
      (None,
       ?w\<lparr>calls := calls ?w + nat (MAX_RETRIES + 1 - (j + 1)),
         trace := trace ?w @ retry_events p (j + 1) @ [Sleep SLEEP_TIME]\<rparr>)"
    using Suc.hyps(1) [OF n _ here rest] le by simp
  moreover have "Suc (calls w + nat (MAX_RETRIES - j)) = calls w + nat (MAX_RETRIES + 1 - j)"
    using le by simp
  ultimately show ?case
    using Suc.prems(2) le here
    by (simp add: retry_loop_step [OF _ _ p] retry_events_step)
qed

lemma alpha_params:
  "add_bookmark_params alpha token = Inr alpha_params"
  by (simp add: add_bookmark_params_def alpha_def alpha_params_def token_def lower_def
        lower_char_def)

text \<open>
  Claim C7. For every publish attempt that was sent and whose first answer has a status
  other than 429, the retry loop is not entered: a result code other than \<open>done\<close>
  only adds the warning to the trace, the fixed pause follows, the result is \<open>None\<close>
  (the run is not ended) and the loop over the page goes on with the next star.
\<close>

theorem publish_not_rate_limited:
  "add_bookmark_params star tok = Inr p \<Longrightarrow> pb_status (pb (calls w)) \<noteq> 429 \<Longrightarrow>
   publish pb tok star w =
     (None,
      w\<lparr>calls := Suc (calls w),
        trace := trace w @ [Info_Adding (full_name star), Publish p] @
               (if lower (result_code (pb (calls w))) \<noteq> ''done''
                then [Warn_Result (result_code (pb (calls w)))] else []) @
               [Sleep SLEEP_TIME]\<rparr>) \<and>
   publish_all pb tok (star # rest) w =
     publish_all pb tok rest
       (w\<lparr>calls := Suc (calls w),
         trace := trace w @ [Info_Adding (full_name star), Publish p] @
                (if lower (result_code (pb (calls w))) \<noteq> ''done''
                 then [Warn_Result (result_code (pb (calls w)))] else []) @
                [Sleep SLEEP_TIME]\<rparr>)"
  by (simp add: publish_first retry_loop_else emit_def)

theorem publish_not_rate_limited_witness:
  "add_bookmark_params alpha token = Inr alpha_params \<and>
   pb_status (pb_exists (calls w_start)) \<noteq> 429 \<and>
   publish pb_exists token alpha w_start =
     (None,
      \<lparr>calls = 1,
       trace = [Info_Adding ''octo/Alpha'', Publish alpha_params,
                Warn_Result ''item already exists'', Sleep 3]\<rparr>) \<and>
   publish_all pb_exists token [alpha, gamma] w_start =
     publish_all pb_exists token [gamma]
       \<lparr>calls = 1,
        trace = [Info_Adding ''octo/Alpha'', Publish alpha_params,
                 Warn_Result ''item already exists'', Sleep 3]\<rparr>"
proof -
  have p: "add_bookmark_params alpha token = Inr alpha_params"
    by (rule alpha_params)
  have st: "pb_status (pb_exists (calls w_start)) \<noteq> 429"
    by (simp add: pb_exists_def)
  have nm: "full_name alpha = ''octo/Alpha''"
    by (simp add: alpha_def)
  have w: "w_start\<lparr>calls := Suc 0, trace := tr\<rparr> = \<lparr>calls = 1, trace = tr\<rparr>" for tr
    by (simp add: w_start_def)
  from publish_not_rate_limited [of alpha token alpha_params pb_exists w_start "[gamma]"] p st
  show ?thesis
    by (simp add: nm w pb_exists_def w_start_def SLEEP_TIME_def lower_def lower_char_def)
qed

section \<open>The boundary of the retry loop\<close>

lemma publish_fatal_at_max:
  assumes p: "add_bookmark_params star tok = Inr p"
    and h: "(\<forall>k. 0 \<le> k \<and> k < MAX_RETRIES \<longrightarrow> pb_status (pb (calls w + nat k)) = 429) \<and>
      (\<forall>k. 1 \<le> k \<and> k < MAX_RETRIES \<longrightarrow>
           lower (result_code (pb (calls w + nat k))) = ''done'') \<and>
      lower (result_code (pb (calls w + nat MAX_RETRIES))) \<noteq> ''done''"
  shows "publish pb tok star w =
            (Some (Exit 1),
             w\<lparr>calls := calls w + nat MAX_RETRIES + 1,
               trace := trace w @ [Info_Adding (full_name star), Publish p] @
                        retry_events p 1 @
                        [Error_Pinboard (result_code (pb (calls w + nat MAX_RETRIES)))]\<rparr>)"
proof -
  let ?w = "w\<lparr>calls := Suc (calls w),
               trace := trace w @ [Info_Adding (full_name star), Publish p]\<rparr>"
  have first: "pb_status (pb (calls w)) = 429"
    using h by (auto simp: MAX_RETRIES_def dest: spec [of _ 0])
  have shift: "Suc (calls w + nat (k - 1)) = calls w + nat k" if "1 \<le> k" for k :: int
    using that by simp
  have rest: "\<forall>k. 1 \<le> k \<and> k < MAX_RETRIES \<longrightarrow>
       pb_status (pb (calls ?w + nat (k - 1))) = 429 \<and>
       lower (result_code (pb (calls ?w + nat (k - 1)))) = ''done''"
    using h by (simp add: shift)
  have final: "lower (result_code (pb (calls ?w + nat (MAX_RETRIES - 1)))) \<noteq> ''done''"
    using h by (simp add: MAX_RETRIES_def add.commute)
  have "retry_loop pb star tok (pb (calls w)) 1 ?w =
      (Some (Exit 1),
       ?w\<lparr>calls := calls ?w + nat (MAX_RETRIES - 1) + 1,
         trace := trace ?w @ retry_events p 1 @
                [Error_Pinboard (result_code (pb (calls ?w + nat (MAX_RETRIES - 1))))]\<rparr>)"
    by (rule retry_loop_fatal_from [OF p _ first rest final]) (simp add: MAX_RETRIES_def)
  then show ?thesis
    by (simp add: publish_first [OF p] MAX_RETRIES_def add.commute)
qed

lemma publish_exhausted:
  assumes p: "add_bookmark_params star tok = Inr p"
    and h: "(\<forall>k. 0 \<le> k \<and> k \<le> MAX_RETRIES \<longrightarrow> pb_status (pb (calls w + nat k)) = 429) \<and>
      (\<forall>k. 1 \<le> k \<and> k \<le> MAX_RETRIES \<longrightarrow>
           lower (result_code (pb (calls w + nat k))) = ''done'')"
  shows "publish pb tok star w =
            (None,
             w\<lparr>calls := calls w + nat MAX_RETRIES + 1,
               trace := trace w @ [Info_Adding (full_name star), Publish p] @
                        retry_events p 1 @ [Sleep SLEEP_TIME]\<rparr>)"
proof -
  let ?w = "w\<lparr>calls := Suc (calls w),
               trace := trace w @ [Info_Adding (full_name star), Publish p]\<rparr>"
  have first: "pb_status (pb (calls w)) = 429"
    using h by (auto simp: MAX_RETRIES_def dest: spec [of _ 0])
  have shift: "Suc (calls w + nat (k - 2)) = calls w + nat (k - 1)" if "2 \<le> k" for k :: int
    using that by simp
  have one: "pb_status (pb (Suc (calls w))) = 429"
      "lower (result_code (pb (Suc (calls w)))) = ''done''"
    using h by (auto simp: MAX_RETRIES_def dest: spec [of _ 1])
  let ?v = "?w\<lparr>calls := Suc (calls ?w),
               trace := trace ?w @ [Warn_RateLimited, Sleep (SLEEP_TIME * 1), Publish p]\<rparr>"
  have rest: "\<forall>k. 2 \<le> k \<and> k \<le> MAX_RETRIES \<longrightarrow>
       pb_status (pb (calls ?v + nat (k - 2))) = 429 \<and>
       lower (result_code (pb (calls ?v + nat (k - 2)))) = ''done''"
  proof (intro allI impI)
    fix k :: int assume k: "2 \<le> k \<and> k \<le> MAX_RETRIES"
    then have eq: "Suc (Suc (calls w + nat (k - 2))) = calls w + nat k" by (simp, linarith)
    from h k show "pb_status (pb (calls ?v + nat (k - 2))) = 429 \<and>
       lower (result_code (pb (calls ?v + nat (k - 2)))) = ''done''"
      by (simp add: eq)
  qed
  have "retry_loop pb star tok (pb (Suc (calls w))) 2 ?v =
      (None,
       ?v\<lparr>calls := calls ?v + nat (MAX_RETRIES + 1 - 2),
         trace := trace ?v @ retry_events p 2 @ [Sleep SLEEP_TIME]\<rparr>)"
    by (rule retry_loop_exhausted_from [OF p _ one rest]) (simp add: MAX_RETRIES_def)
  then have "retry_loop pb star tok (pb (calls w)) 1 ?w =
      (None,
       ?v\<lparr>calls := calls ?v + nat (MAX_RETRIES + 1 - 2),
         trace := trace ?v @ retry_events p 2 @ [Sleep SLEEP_TIME]\<rparr>)"
    using first one by (simp add: retry_loop_step [OF _ _ p] MAX_RETRIES_def)
  then show ?thesis
    using retry_events_step [of 1 p]
    by (simp add: publish_first [OF p] MAX_RETRIES_def)
qed

text \<open>
  The two runs of the loop in which every retry but possibly the last carries the
  result code \<open>done\<close>. For a request that was built: when the first attempt and the
  retries 1 to \<open>MAX_RETRIES - 1\<close> are answered with 429, the retries 1 to
  \<open>MAX_RETRIES - 1\<close> carry \<open>done\<close> and retry \<open>MAX_RETRIES\<close> carries another
  result code, the run ends fatally exactly after \<open>MAX_RETRIES\<close> retries, having
  paused \<open>SLEEP_TIME * k\<close> before retry \<open>k\<close>. When the first attempt and all
  \<open>MAX_RETRIES\<close> retries are answered with 429 and every retry carries
  \<open>done\<close>, the run is not ended: after the last retry it pauses \<open>SLEEP_TIME\<close>
  and goes on.
\<close>

lemma publish_retry_boundary:
  assumes p: "add_bookmark_params star tok = Inr p"
  shows
    "((\<forall>k. 0 \<le> k \<and> k < MAX_RETRIES \<longrightarrow> pb_status (pb (calls w + nat k)) = 429) \<and>
      (\<forall>k. 1 \<le> k \<and> k < MAX_RETRIES \<longrightarrow>
           lower (result_code (pb (calls w + nat k))) = ''done'') \<and>
      lower (result_code (pb (calls w + nat MAX_RETRIES))) \<noteq> ''done''
      \<longrightarrow> publish pb tok star w =
            (Some (Exit 1),
             w\<lparr>calls := calls w + nat MAX_RETRIES + 1,
               trace := trace w @ [Info_Adding (full_name star), Publish p] @
                        retry_events p 1 @
                        [Error_Pinboard (result_code (pb (calls w + nat MAX_RETRIES)))]\<rparr>)) \<and>
     ((\<forall>k. 0 \<le> k \<and> k \<le> MAX_RETRIES \<longrightarrow> pb_status (pb (calls w + nat k)) = 429) \<and>
      (\<forall>k. 1 \<le> k \<and> k \<le> MAX_RETRIES \<longrightarrow>
           lower (result_code (pb (calls w + nat k))) = ''done'')
      \<longrightarrow> publish pb tok star w =
            (None,
             w\<lparr>calls := calls w + nat MAX_RETRIES + 1,
               trace := trace w @ [Info_Adding (full_name star), Publish p] @
                        retry_events p 1 @ [Sleep SLEEP_TIME]\<rparr>))"
  using publish_fatal_at_max [OF p] publish_exhausted [OF p] by blast

section \<open>Reading traces, and facts about the inputs\<close>

lemma slept_append: "slept (a @ b) = slept a @ slept b"
  by (induction a rule: slept.induct) simp_all

lemma published_append: "published (a @ b) = published a @ published b"
  by (induction a rule: published.induct) simp_all

lemma fetched_append: "fetched (a @ b) = fetched a @ fetched b"
  by (induction a rule: fetched.induct) simp_all

lemma slept_retry_events:
  "slept (retry_events p 1) = [3, 6, 9, 12, 15, 18, 21, 24, 27, 30]"
  by (simp add: retry_events_def MAX_RETRIES_def SLEEP_TIME_def upto_rec1)

lemma length_published_retry_events:
  "length (published (retry_events p 1)) = 10"
  by (simp add: retry_events_def MAX_RETRIES_def upto_rec1)

lemma w_start_fields: "calls w_start = 0" "trace w_start = []"
  by (simp_all add: w_start_def)

lemma full_name_alpha: "full_name alpha = ''octo/Alpha''"
  by (simp add: alpha_def)

lemma lower_done: "lower ''done'' = ''done''"
  by (simp add: lower_def lower_char_def)

lemma lower_rate_limit: "lower ''rate limit exceeded'' \<noteq> ''done''"
  by (simp add: lower_def lower_char_def)

lemma pb_limited_done_all:
  "(\<forall>k. 0 \<le> k \<and> k \<le> MAX_RETRIES \<longrightarrow>
      pb_status (pb_limited_done (calls w_start + nat k)) = 429) \<and>
   (\<forall>k. 1 \<le> k \<and> k \<le> MAX_RETRIES \<longrightarrow>
      lower (result_code (pb_limited_done (calls w_start + nat k))) = ''done'')"
  by (simp add: pb_limited_done_def lower_done)

text \<open>The first retry with a result code other than \<open>done\<close> ends the run.\<close>

lemma retry_first_not_done:
  "pb_status r = 429 \<Longrightarrow> add_bookmark_params star tok = Inr p \<Longrightarrow>
   lower (result_code (pb (calls w))) \<noteq> ''done'' \<Longrightarrow>
   retry_loop pb star tok r 1 w =
     (Some (Exit 1),
      w\<lparr>calls := Suc (calls w),
        trace := trace w @ [Warn_RateLimited, Sleep SLEEP_TIME, Publish p,
                           Error_Pinboard (result_code (pb (calls w)))]\<rparr>)"
  by (simp add: retry_loop_step [of r 1 star tok p pb w] MAX_RETRIES_def)

text \<open>So does every later retry, whatever its number and the status of its answer.\<close>

lemma retry_not_done_fatal:
  "pb_status r = 429 \<Longrightarrow> retry \<le> MAX_RETRIES \<Longrightarrow> add_bookmark_params star tok = Inr p \<Longrightarrow>
   lower (result_code (pb (calls w))) \<noteq> ''done'' \<Longrightarrow>
   retry_loop pb star tok r retry w =
     (Some (Exit 1),
      w\<lparr>calls := Suc (calls w),
        trace := trace w @ [Warn_RateLimited, Sleep (SLEEP_TIME * retry), Publish p,
                           Error_Pinboard (result_code (pb (calls w)))]\<rparr>)"
  by (simp add: retry_loop_step [of r retry star tok p pb w])

lemma publish_pb_limited:
  "publish pb_limited token alpha w_start =
     (Some (Exit 1),
      \<lparr>calls = 2,
       trace = [Info_Adding ''octo/Alpha'', Publish alpha_params,
                Warn_RateLimited, Sleep 3, Publish alpha_params,
                Error_Pinboard ''rate limit exceeded'']\<rparr>)"
proof -
  let ?w = "w_start\<lparr>calls := Suc (calls w_start),
              trace := trace w_start @ [Info_Adding (full_name alpha), Publish alpha_params]\<rparr>"
  have "publish pb_limited token alpha w_start =
          retry_loop pb_limited alpha token (pb_limited (calls w_start)) 1 ?w"
    by (rule publish_first [OF alpha_params])
  also have "\<dots> =
     (Some (Exit 1),
      ?w\<lparr>calls := Suc (calls ?w),
        trace := trace ?w @ [Warn_RateLimited, Sleep SLEEP_TIME, Publish alpha_params,
                           Error_Pinboard (result_code (pb_limited (calls ?w)))]\<rparr>)"
    by (rule retry_first_not_done [OF _ alpha_params])
       (simp_all add: pb_limited_def lower_rate_limit)
  also have "\<dots> =
     (Some (Exit 1),
      \<lparr>calls = 2,
       trace = [Info_Adding ''octo/Alpha'', Publish alpha_params,
                Warn_RateLimited, Sleep 3, Publish alpha_params,
                Error_Pinboard ''rate limit exceeded'']\<rparr>)"
    by (simp add: pb_limited_def SLEEP_TIME_def w_start_def full_name_alpha)
  finally show ?thesis .
qed

lemma publish_pb_limited_done:
  "fst (publish pb_limited_done token alpha w_start) = None \<and>
   slept (trace (snd (publish pb_limited_done token alpha w_start))) =
     [3, 6, 9, 12, 15, 18, 21, 24, 27, 30, 3] \<and>
   length (published (trace (snd (publish pb_limited_done token alpha w_start)))) = 11"
  by (simp add: publish_exhausted [OF alpha_params pb_limited_done_all] slept_append
        published_append slept_retry_events length_published_retry_events SLEEP_TIME_def
        w_start_fields)

section \<open>The retry loop at concrete answers\<close>

lemma publish_retry_boundary_at_answers:
  "add_bookmark_params alpha token = Inr alpha_params \<and>
   fst (publish pb_limited_ten token alpha w_start) = Some (Exit 1) \<and>
   calls (snd (publish pb_limited_ten token alpha w_start)) = 11 \<and>
   slept (trace (snd (publish pb_limited_ten token alpha w_start))) =
     [3, 6, 9, 12, 15, 18, 21, 24, 27, 30] \<and>
   fst (publish pb_limited_done token alpha w_start) = None \<and>
   calls (snd (publish pb_limited_done token alpha w_start)) = 11 \<and>
   slept (trace (snd (publish pb_limited_done token alpha w_start))) =
     [3, 6, 9, 12, 15, 18, 21, 24, 27, 30, 3]"
proof -
  have p: "add_bookmark_params alpha token = Inr alpha_params"
    by (rule alpha_params)
  have h1: "(\<forall>k. 0 \<le> k \<and> k < MAX_RETRIES \<longrightarrow>
               pb_status (pb_limited_ten (calls w_start + nat k)) = 429) \<and>
            (\<forall>k. 1 \<le> k \<and> k < MAX_RETRIES \<longrightarrow>
               lower (result_code (pb_limited_ten (calls w_start + nat k))) = ''done'') \<and>
            lower (result_code (pb_limited_ten (calls w_start + nat MAX_RETRIES))) \<noteq> ''done''"
    by (auto simp: pb_limited_ten_def MAX_RETRIES_def w_start_def lower_done lower_rate_limit)
  have a: "publish pb_limited_ten token alpha w_start =
            (Some (Exit 1),
             w_start\<lparr>calls := calls w_start + nat MAX_RETRIES + 1,
               trace := trace w_start @ [Info_Adding (full_name alpha), Publish alpha_params] @
                        retry_events alpha_params 1 @
                        [Error_Pinboard
                           (result_code (pb_limited_ten (calls w_start + nat MAX_RETRIES)))]\<rparr>)"
    using publish_retry_boundary [OF p, of pb_limited_ten w_start] h1 by blast
  have b: "publish pb_limited_done token alpha w_start =
            (None,
             w_start\<lparr>calls := calls w_start + nat MAX_RETRIES + 1,
               trace := trace w_start @ [Info_Adding (full_name alpha), Publish alpha_params] @
                        retry_events alpha_params 1 @ [Sleep SLEEP_TIME]\<rparr>)"
    using publish_retry_boundary [OF p, of pb_limited_done w_start] pb_limited_done_all
    by blast
  show ?thesis
    by (simp add: p a b w_start_fields slept_append slept_retry_events MAX_RETRIES_def
          SLEEP_TIME_def)
qed

text \<open>
  Claim C2, at a Pinboard that answers every request with 429 and the result code
  \<open>rate limit exceeded\<close>. The loop is written for \<open>MAX_RETRIES\<close> retries with
  growing pauses, but the check of the result code inside the loop ends the run at the
  first retry: one pause of 3 and two requests, not \<open>MAX_RETRIES\<close> retries with the
  pauses 3, 6, ..., 30. And at a Pinboard that answers every request with 429 and
  \<open>done\<close>, the retries are used up while the publish is still rate-limited, and
  the run is not ended: it pauses and goes on to the next star.
\<close>

theorem publish_rate_limited_one_retry:
  "pb_status (pb_limited 0) = 429 \<and> pb_status (pb_limited 1) = 429 \<and>
   lower (result_code (pb_limited 1)) \<noteq> ''done'' \<and>
   publish pb_limited token alpha w_start =
     (Some (Exit 1),
      \<lparr>calls = 2,
       trace = [Info_Adding ''octo/Alpha'', Publish alpha_params,
                Warn_RateLimited, Sleep 3, Publish alpha_params,
                Error_Pinboard ''rate limit exceeded'']\<rparr>) \<and>
   fst (publish pb_limited_done token alpha w_start) = None \<and>
   slept (trace (snd (publish pb_limited_done token alpha w_start))) =
     [3, 6, 9, 12, 15, 18, 21, 24, 27, 30, 3] \<and>
   length (published (trace (snd (publish pb_limited_done token alpha w_start)))) = 11"
  using publish_pb_limited publish_pb_limited_done
  by (simp add: pb_limited_def lower_rate_limit)

section \<open>Properties of the loop over the pages\<close>

lemma started_append: "started (a @ b) = started a @ started b"
  by (induction a rule: started.induct) simp_all

lemma retry_loop_fetched:
  "fetched (trace (snd (retry_loop pb star tok r retry w))) = fetched (trace w)"
proof (induction pb star tok r retry w rule: retry_loop.induct)
  case (1 pb star tok r retry w)
  show ?case
    using "1.IH"
    by (subst retry_loop.simps)
       (auto simp: Let_def emit_def add_bookmark_def fetched_append split: sum.splits)
qed

lemma retry_loop_started:
  "started (trace (snd (retry_loop pb star tok r retry w))) = started (trace w)"
proof (induction pb star tok r retry w rule: retry_loop.induct)
  case (1 pb star tok r retry w)
  show ?case
    using "1.IH"
    by (subst retry_loop.simps)
       (auto simp: Let_def emit_def add_bookmark_def started_append split: sum.splits)
qed

lemma publish_fetched:
  "fetched (trace (snd (publish pb tok star w))) = fetched (trace w)"
  by (auto simp: publish_def Let_def emit_def add_bookmark_def fetched_append retry_loop_fetched
        split: sum.splits)

lemma publish_started:
  "started (trace (snd (publish pb tok star w))) = started (trace w) @ [full_name star]"
  by (auto simp: publish_def Let_def emit_def add_bookmark_def started_append retry_loop_started
        split: sum.splits)

lemma publish_all_fetched:
  "fetched (trace (snd (publish_all pb tok stars w))) = fetched (trace w)"
proof (induction stars arbitrary: w)
  case Nil
  show ?case by simp
next
  case (Cons s stars)
  show ?case
  proof (cases "publish pb tok s w")
    case (Pair out w')
    with Cons publish_fetched [of pb tok s w] show ?thesis
      by (cases out) auto
  qed
qed

lemma publish_all_started:
  "publish_all pb tok stars w = (None, w') \<Longrightarrow>
   started (trace w') = started (trace w) @ map full_name stars"
proof (induction stars arbitrary: w)
  case Nil
  then show ?case by simp
next
  case (Cons s stars)
  show ?case
  proof (cases "publish pb tok s w")
    case (Pair out v)
    with Cons.prems have out: "out = None" and rest: "publish_all pb tok stars v = (None, w')"
      by (cases out; simp)+
    from Cons.IH [OF rest] publish_started [of pb tok s w] Pair show ?thesis
      by simp
  qed
qed

lemma page_loop_fetch:
  "py_le page last' \<Longrightarrow>
   gen_next gh sort_dir (Running page last') w =
     Some (gh sort_dir page, after_yield (gh sort_dir page) page last',
           emit (Fetch sort_dir page) w)"
  by (simp add: gen_next_def Let_def)

lemma repo_params: "add_bookmark_params (repo name) token = Inr (repo_params name)"
  by (simp add: add_bookmark_params_def repo_def repo_params_def)

lemma publish_plain:
  "add_bookmark_params star tok = Inr p \<Longrightarrow> pb_status (pb (calls w)) \<noteq> 429 \<Longrightarrow>
   publish pb tok star w =
     (None,
      w\<lparr>calls := Suc (calls w),
        trace := trace w @ [Info_Adding (full_name star), Publish p] @
               (if lower (result_code (pb (calls w))) \<noteq> ''done''
                then [Warn_Result (result_code (pb (calls w)))] else []) @
               [Sleep SLEEP_TIME]\<rparr>)"
  by (simp add: publish_first retry_loop_else emit_def)

lemma publish_pb_done:
  "add_bookmark_params star tok = Inr p \<Longrightarrow>
   publish pb_done tok star w =
     (None,
      w\<lparr>calls := Suc (calls w),
        trace := trace w @ [Info_Adding (full_name star), Publish p, Sleep 3]\<rparr>)"
  by (simp add: publish_plain pb_done_def lower_done SLEEP_TIME_def)

lemma full_name_repo: "full_name (repo name) = ''octo/'' @ name"
  by (simp add: repo_def)

lemma gamma_params: "add_bookmark_params gamma token = Inr gamma_params"
  by (simp add: add_bookmark_params_def gamma_def gamma_params_def token_def lower_def
        lower_char_def)

lemma full_name_gamma: "full_name gamma = ''octo/Gamma''"
  by (simp add: gamma_def)

lemma page_loop_next:
  "py_le page last' \<Longrightarrow> status_code (gh sort_dir page) = 200 \<Longrightarrow>
   publish_all pb tok (json (gh sort_dir page)) (emit (Fetch sort_dir page) w) = (None, w2) \<Longrightarrow>
   after_yield (gh sort_dir page) page last' = st' \<Longrightarrow>
   page_loop lw (Suc n) gh pb tok sort_dir None (Running page last') False w =
     page_loop lw n gh pb tok sort_dir None st' False w2"
  by (simp add: page_loop_fetch)

lemma page_loop_stopped:
  "page_loop lw (Suc n) gh pb tok sort_dir most_recent Stopped hit w = Some (Returned, w)"
  by (simp add: gen_next_def)

lemma page_loop_past_last:
  "\<not> py_le page last' \<Longrightarrow>
   page_loop lw (Suc n) gh pb tok sort_dir most_recent (Running page last') hit w =
     Some (Returned, w)"
  by (simp add: gen_next_def)

lemma main_first_run:
  "main lw n gh pb tok [] =
     page_loop lw n gh pb tok ''asc'' None (Running (PInt 1) (PInt 1)) False
       \<lparr>calls = 0, trace = [Info_Getting]\<rparr>"
  by (simp add: main_def resolve_cursor_def get_most_recent_bookmark_def gen_start_def emit_def)

lemma main_resume:
  "main lw n gh pb tok (b # bs) =
     page_loop lw n gh pb tok ''desc'' (Some (b_description b)) (Running (PInt 1) (PInt 1)) False
       \<lparr>calls = 0, trace = [Info_Getting]\<rparr>"
  by (simp add: main_def resolve_cursor_def get_most_recent_bookmark_def gen_start_def emit_def)

text \<open>
  Claim C9. Whenever a page is fetched (the generator is at \<open>page <= last\<close>) and
  its status is not 200, the run ends with exit code 1 at once: the trace gains the
  request for the page and the error message only, so no entry of the page is
  published, no further page is fetched, and nothing else is done (the script writes
  no file and keeps no cursor; the only effects of a run are the events of the trace).
\<close>

theorem page_loop_bad_status:
  "py_le page last' \<and> status_code (gh sort_dir page) \<noteq> 200 \<longrightarrow>
   page_loop lw (Suc n) gh pb tok sort_dir most_recent (Running page last') hit w =
     Some (Exit 1, w\<lparr>trace := trace w @ [Fetch sort_dir page, Error_GitHub]\<rparr>) \<and>
   exit_code (Exit 1) \<noteq> 0 \<and>
   published (trace (w\<lparr>trace := trace w @ [Fetch sort_dir page, Error_GitHub]\<rparr>)) =
     published (trace w) \<and>
   fetched (trace (w\<lparr>trace := trace w @ [Fetch sort_dir page, Error_GitHub]\<rparr>)) =
     fetched (trace w) @ [page] \<and>
   calls (w\<lparr>trace := trace w @ [Fetch sort_dir page, Error_GitHub]\<rparr>) = calls w"
  by (simp add: page_loop_fetch emit_def published_append fetched_append)

lemma fail_second:
  "gh_fail_second ''asc'' (PStr ''2'') = \<lparr>json = [], status_code = 502, link = None\<rparr>"
  by (simp add: gh_fail_second_def)

theorem page_loop_bad_status_witness:
  "py_le (PStr ''2'') (PStr ''2'') \<and> status_code (gh_fail_second ''asc'' (PStr ''2'')) \<noteq> 200 \<and>
   page_loop lower (Suc 0) gh_fail_second pb_done token ''asc'' None (Running (PStr ''2'') (PStr ''2''))
       False \<lparr>calls = 1, trace = [Fetch ''asc'' (PInt 1), Publish alpha_params]\<rparr> =
     Some (Exit 1,
           \<lparr>calls = 1,
            trace = [Fetch ''asc'' (PInt 1), Publish alpha_params, Fetch ''asc'' (PStr ''2''),
                     Error_GitHub]\<rparr>)"
  using page_loop_bad_status [of "PStr ''2''" "PStr ''2''" gh_fail_second "''asc''" lower 0 pb_done
          token None False "\<lparr>calls = 1, trace = [Fetch ''asc'' (PInt 1), Publish alpha_params]\<rparr>"]
  by (simp add: fail_second)

lemma page_loop_found_step:
  assumes "py_le page last'"
    and "status_code (gh sort_dir page) = 200"
    and "filter_stars lw (json (gh sort_dir page)) t = (survivors, True)"
  shows "page_loop lw (Suc n) gh pb tok sort_dir (Some t) (Running page last') hit w =
           (case publish_all pb tok survivors (emit (Fetch sort_dir page) w) of
              (Some out, w2) \<Rightarrow> Some (out, w2)
            | (None, w2) \<Rightarrow> Some (Exit 0, w2))"
  using assms by (simp add: page_loop_fetch split: prod.splits option.splits)

text \<open>
  Claim C5. Whenever a page is fetched with status 200 and \<open>filter_stars\<close> reports
  \<open>True\<close> for it, the loop hands exactly the surviving entries to the publisher, in
  page order; when publishing them does not end the run (no fatal retry, no exception),
  the run ends with \<open>sys.exit(0)\<close> right after, whatever pages remain and whatever
  the bound on the pages; and however the run ends, the only page fetched from here on
  is this one.
\<close>

theorem page_loop_found:
  "py_le page last' \<and> status_code (gh sort_dir page) = 200 \<and>
   filter_stars lw (json (gh sort_dir page)) t = (survivors, True) \<longrightarrow>
     page_loop lw (Suc n) gh pb tok sort_dir (Some t) (Running page last') hit w =
       (case publish_all pb tok survivors (emit (Fetch sort_dir page) w) of
          (Some out, w2) \<Rightarrow> Some (out, w2)
        | (None, w2) \<Rightarrow> Some (Exit 0, w2)) \<and>
     (\<forall>w2. publish_all pb tok survivors (emit (Fetch sort_dir page) w) = (None, w2) \<longrightarrow>
        page_loop lw (Suc n) gh pb tok sort_dir (Some t) (Running page last') hit w =
          Some (Exit 0, w2) \<and>
        exit_code (Exit 0) = 0 \<and>
        started (trace w2) = started (trace w) @ map full_name survivors) \<and>
     (\<forall>out w2. page_loop lw (Suc n) gh pb tok sort_dir (Some t) (Running page last') hit w =
        Some (out, w2) \<longrightarrow> fetched (trace w2) = fetched (trace w) @ [page])"
proof (intro impI)
  assume h: "py_le page last' \<and> status_code (gh sort_dir page) = 200 \<and>
   filter_stars lw (json (gh sort_dir page)) t = (survivors, True)"
  have a: "page_loop lw (Suc n) gh pb tok sort_dir (Some t) (Running page last') hit w =
           (case publish_all pb tok survivors (emit (Fetch sort_dir page) w) of
              (Some out, w2) \<Rightarrow> Some (out, w2)
            | (None, w2) \<Rightarrow> Some (Exit 0, w2))"
    using h by (intro page_loop_found_step) simp_all
  have b: "\<forall>w2. publish_all pb tok survivors (emit (Fetch sort_dir page) w) = (None, w2) \<longrightarrow>
           page_loop lw (Suc n) gh pb tok sort_dir (Some t) (Running page last') hit w =
             Some (Exit 0, w2) \<and>
           exit_code (Exit 0) = 0 \<and>
           started (trace w2) = started (trace w) @ map full_name survivors"
    using a by (auto dest: publish_all_started simp: emit_def started_append)
  have c: "\<forall>out w2. page_loop lw (Suc n) gh pb tok sort_dir (Some t) (Running page last') hit w =
             Some (out, w2) \<longrightarrow> fetched (trace w2) = fetched (trace w) @ [page]"
  proof (intro allI impI)
    fix out w2
    assume r: "page_loop lw (Suc n) gh pb tok sort_dir (Some t) (Running page last') hit w =
                 Some (out, w2)"
    obtain out' v where pa:
      "publish_all pb tok survivors (emit (Fetch sort_dir page) w) = (out', v)"
      by (cases "publish_all pb tok survivors (emit (Fetch sort_dir page) w)")
    from r a pa have "w2 = v"
      by (cases out') simp_all
    moreover from publish_all_fetched [of pb tok survivors "emit (Fetch sort_dir page) w"] pa
    have "fetched (trace v) = fetched (trace w) @ [page]"
      by (simp add: emit_def fetched_append)
    ultimately show "fetched (trace w2) = fetched (trace w) @ [page]"
      by simp
  qed
  from a b c show "page_loop lw (Suc n) gh pb tok sort_dir (Some t) (Running page last') hit w =
       (case publish_all pb tok survivors (emit (Fetch sort_dir page) w) of
          (Some out, w2) \<Rightarrow> Some (out, w2)
        | (None, w2) \<Rightarrow> Some (Exit 0, w2)) \<and>
     (\<forall>w2. publish_all pb tok survivors (emit (Fetch sort_dir page) w) = (None, w2) \<longrightarrow>
        page_loop lw (Suc n) gh pb tok sort_dir (Some t) (Running page last') hit w =
          Some (Exit 0, w2) \<and>
        exit_code (Exit 0) = 0 \<and>
        started (trace w2) = started (trace w) @ map full_name survivors) \<and>
     (\<forall>out w2. page_loop lw (Suc n) gh pb tok sort_dir (Some t) (Running page last') hit w =
        Some (out, w2) \<longrightarrow> fetched (trace w2) = fetched (trace w) @ [page])"
    by blast
qed

lemma listing_desc_first:
  "github_listing 3 ten_stars ''desc'' (PInt 1) =
     \<lparr>json = map repo [''j'', ''i'', ''h''], status_code = 200,
      link = link_header ''desc'' 1 4\<rparr>"
  by code_simp

lemma filter_h:
  "filter_stars lower (map repo [''j'', ''i'', ''h'']) ''octo/H'' = (map repo [''j'', ''i''], True)"
  by code_simp

theorem page_loop_found_witness:
  "py_le (PInt 1) (PInt 1) \<and>
   status_code (github_listing 3 ten_stars ''desc'' (PInt 1)) = 200 \<and>
   filter_stars lower (json (github_listing 3 ten_stars ''desc'' (PInt 1))) ''octo/H'' =
     (map repo [''j'', ''i''], True) \<and>
   page_loop lower (Suc 5) (github_listing 3 ten_stars) pb_done token ''desc'' (Some ''octo/H'')
       (Running (PInt 1) (PInt 1)) False w_start =
     Some (Exit 0,
           \<lparr>calls = 2,
            trace = [Fetch ''desc'' (PInt 1),
                     Info_Adding ''octo/j'', Publish (repo_params ''j''), Sleep 3,
                     Info_Adding ''octo/i'', Publish (repo_params ''i''), Sleep 3]\<rparr>)"
proof -
  have h1: "py_le (PInt 1) (PInt 1)" by simp
  have h2: "status_code (github_listing 3 ten_stars ''desc'' (PInt 1)) = 200"
    by (simp add: listing_desc_first)
  have h3: "filter_stars lower (json (github_listing 3 ten_stars ''desc'' (PInt 1))) ''octo/H'' =
     (map repo [''j'', ''i''], True)"
    by (simp add: listing_desc_first filter_h del: list.map)
  have pa: "publish_all pb_done token (map repo [''j'', ''i''])
              (emit (Fetch ''desc'' (PInt 1)) w_start) =
      (None,
           \<lparr>calls = 2,
            trace = [Fetch ''desc'' (PInt 1),
                     Info_Adding ''octo/j'', Publish (repo_params ''j''), Sleep 3,
                     Info_Adding ''octo/i'', Publish (repo_params ''i''), Sleep 3]\<rparr>)"
    by (simp add: publish_pb_done [OF repo_params] full_name_repo emit_def w_start_def)
  from page_loop_found [where page = "PInt 1" and last' = "PInt 1"
      and gh = "github_listing 3 ten_stars" and sort_dir = "''desc''" and t = "''octo/H''"
      and survivors = "map repo [''j'', ''i'']" and n = 5 and pb = pb_done and tok = token
      and hit = False and w = w_start] h1 h2 h3 pa
  show ?thesis by simp
qed

lemma page_loop_target_step:
  "py_le page last' \<Longrightarrow> status_code (gh sort_dir page) = 200 \<Longrightarrow>
   page_loop lw (Suc n) gh pb tok sort_dir (Some t) (Running page last') hit w =
     (case publish_all pb tok (fst (filter_stars lw (json (gh sort_dir page)) t))
             (emit (Fetch sort_dir page) w) of
        (Some out, w2) \<Rightarrow> Some (out, w2)
      | (None, w2) \<Rightarrow>
          if snd (filter_stars lw (json (gh sort_dir page)) t) then Some (Exit 0, w2)
          else page_loop lw n gh pb tok sort_dir (Some t)
                 (after_yield (gh sort_dir page) page last') False w2)"
  by (cases "filter_stars lw (json (gh sort_dir page)) t")
     (auto simp: page_loop_fetch split: prod.splits option.splits)

lemma page_loop_plain_step:
  "py_le page last' \<Longrightarrow> status_code (gh sort_dir page) = 200 \<Longrightarrow>
   page_loop lw (Suc n) gh pb tok sort_dir None (Running page last') False w =
     (case publish_all pb tok (json (gh sort_dir page)) (emit (Fetch sort_dir page) w) of
        (Some out, w2) \<Rightarrow> Some (out, w2)
      | (None, w2) \<Rightarrow>
          page_loop lw n gh pb tok sort_dir None (after_yield (gh sort_dir page) page last')
            False w2)"
  by (simp add: page_loop_fetch split: prod.splits option.splits)

text \<open>
  Claim C4. When the query for the most recent bookmark tagged \<open>github-star\<close>
  returns no post, the run uses the direction \<open>asc\<close> and no target: every page is
  requested in that direction and, when its status is 200, published whole (no
  filtering). When the query returns posts, the run uses the direction \<open>desc\<close> and
  the description of the first post as the target: every page is requested in that
  direction and, when its status is 200, cut by \<open>filter_stars\<close> at the target
  before it is published, and the run ends with exit code 0 after the page on which
  the target was found. The first two conjuncts are the resolution itself, the next
  two hand its result to the loop, the fifth and sixth are one iteration of the loop
  for every direction, target and state, and the last two are the first page of a
  first run and of a resume run.
\<close>

theorem resolve_cursor_main:
  "resolve_cursor [] = Inr (''asc'', None) \<and>
   resolve_cursor (b # bs) = Inr (''desc'', Some (b_description b)) \<and>
   main lw n gh pb tok [] =
     page_loop lw n gh pb tok ''asc'' None gen_start False
       (emit Info_Getting \<lparr>calls = 0, trace = []\<rparr>) \<and>
   main lw n gh pb tok (b # bs) =
     page_loop lw n gh pb tok ''desc'' (Some (b_description b)) gen_start False
       (emit Info_Getting \<lparr>calls = 0, trace = []\<rparr>) \<and>
   (py_le page last' \<and> status_code (gh sort_dir page) = 200 \<longrightarrow>
      page_loop lw (Suc n) gh pb tok sort_dir None (Running page last') False w =
        (case publish_all pb tok (json (gh sort_dir page)) (emit (Fetch sort_dir page) w) of
           (Some out, w2) \<Rightarrow> Some (out, w2)
         | (None, w2) \<Rightarrow>
             page_loop lw n gh pb tok sort_dir None (after_yield (gh sort_dir page) page last')
               False w2)) \<and>
   (py_le page last' \<and> status_code (gh sort_dir page) = 200 \<longrightarrow>
      page_loop lw (Suc n) gh pb tok sort_dir (Some t) (Running page last') hit w =
        (case publish_all pb tok (fst (filter_stars lw (json (gh sort_dir page)) t))
                (emit (Fetch sort_dir page) w) of
           (Some out, w2) \<Rightarrow> Some (out, w2)
         | (None, w2) \<Rightarrow>
             if snd (filter_stars lw (json (gh sort_dir page)) t) then Some (Exit 0, w2)
             else page_loop lw n gh pb tok sort_dir (Some t)
                    (after_yield (gh sort_dir page) page last') False w2)) \<and>
   (status_code (gh ''asc'' (PInt 1)) = 200 \<longrightarrow>
      main lw (Suc n) gh pb tok [] =
        (case publish_all pb tok (json (gh ''asc'' (PInt 1)))
                \<lparr>calls = 0, trace = [Info_Getting, Fetch ''asc'' (PInt 1)]\<rparr> of
           (Some out, w2) \<Rightarrow> Some (out, w2)
         | (None, w2) \<Rightarrow>
             page_loop lw n gh pb tok ''asc'' None
               (after_yield (gh ''asc'' (PInt 1)) (PInt 1) (PInt 1)) False w2)) \<and>
   (status_code (gh ''desc'' (PInt 1)) = 200 \<longrightarrow>
      main lw (Suc n) gh pb tok (b # bs) =
        (case publish_all pb tok
                (fst (filter_stars lw (json (gh ''desc'' (PInt 1))) (b_description b)))
                \<lparr>calls = 0, trace = [Info_Getting, Fetch ''desc'' (PInt 1)]\<rparr> of
           (Some out, w2) \<Rightarrow> Some (out, w2)
         | (None, w2) \<Rightarrow>
             if snd (filter_stars lw (json (gh ''desc'' (PInt 1))) (b_description b))
             then Some (Exit 0, w2)
             else page_loop lw n gh pb tok ''desc'' (Some (b_description b))
                    (after_yield (gh ''desc'' (PInt 1)) (PInt 1) (PInt 1)) False w2))"
proof -
  have c1: "resolve_cursor [] = Inr (''asc'', None)"
    by (simp add: resolve_cursor_def get_most_recent_bookmark_def)
  have c2: "resolve_cursor (b # bs) = Inr (''desc'', Some (b_description b))"
    by (simp add: resolve_cursor_def get_most_recent_bookmark_def)
  have c3: "main lw n gh pb tok [] =
     page_loop lw n gh pb tok ''asc'' None gen_start False
       (emit Info_Getting \<lparr>calls = 0, trace = []\<rparr>)"
    by (simp add: main_def c1)
  have c4: "main lw n gh pb tok (b # bs) =
     page_loop lw n gh pb tok ''desc'' (Some (b_description b)) gen_start False
       (emit Info_Getting \<lparr>calls = 0, trace = []\<rparr>)"
    by (simp add: main_def c2)
  have w0: "emit (Fetch d (PInt 1)) \<lparr>calls = 0, trace = [Info_Getting]\<rparr> =
              \<lparr>calls = 0, trace = [Info_Getting, Fetch d (PInt 1)]\<rparr>" for d
    by (simp add: emit_def)
  have one: "py_le (PInt 1) (PInt 1)" by simp
  have c7: "status_code (gh ''asc'' (PInt 1)) = 200 \<Longrightarrow>
      main lw (Suc n) gh pb tok [] =
        (case publish_all pb tok (json (gh ''asc'' (PInt 1)))
                \<lparr>calls = 0, trace = [Info_Getting, Fetch ''asc'' (PInt 1)]\<rparr> of
           (Some out, w2) \<Rightarrow> Some (out, w2)
         | (None, w2) \<Rightarrow>
             page_loop lw n gh pb tok ''asc'' None
               (after_yield (gh ''asc'' (PInt 1)) (PInt 1) (PInt 1)) False w2)"
    unfolding main_first_run
    by (simp only: page_loop_plain_step [OF one] w0)
  have c8: "status_code (gh ''desc'' (PInt 1)) = 200 \<Longrightarrow>
      main lw (Suc n) gh pb tok (b # bs) =
        (case publish_all pb tok
                (fst (filter_stars lw (json (gh ''desc'' (PInt 1))) (b_description b)))
                \<lparr>calls = 0, trace = [Info_Getting, Fetch ''desc'' (PInt 1)]\<rparr> of
           (Some out, w2) \<Rightarrow> Some (out, w2)
         | (None, w2) \<Rightarrow>
             if snd (filter_stars lw (json (gh ''desc'' (PInt 1))) (b_description b))
             then Some (Exit 0, w2)
             else page_loop lw n gh pb tok ''desc'' (Some (b_description b))
                    (after_yield (gh ''desc'' (PInt 1)) (PInt 1) (PInt 1)) False w2)"
    unfolding main_resume
    by (simp only: page_loop_target_step [OF one] w0)
  from c1 c2 c3 c4 c7 c8 page_loop_plain_step [of page last' gh sort_dir lw n pb tok w]
    page_loop_target_step [of page last' gh sort_dir lw n pb tok t hit w]
  show ?thesis by blast
qed

lemma two_pages_first:
  "status_code (gh_two_pages ''asc'' (PInt 1)) = 200"
  "json (gh_two_pages ''asc'' (PInt 1)) = [alpha]"
  "after_yield (gh_two_pages ''asc'' (PInt 1)) (PInt 1) (PInt 1) =
     Running (PStr ''2'') (PStr ''2'')"
  by code_simp+

lemma two_pages_second:
  "status_code (gh_two_pages ''asc'' (PStr ''2'')) = 200"
  "json (gh_two_pages ''asc'' (PStr ''2'')) = [gamma]"
  "after_yield (gh_two_pages ''asc'' (PStr ''2'')) (PStr ''2'') (PStr ''2'') = Stopped"
  by code_simp+

lemma first_run_two_pages:
  "main lower (Suc (Suc (Suc 0))) gh_two_pages pb_done token [] =
     Some (Returned,
           \<lparr>calls = 2,
            trace = [Info_Getting, Fetch ''asc'' (PInt 1),
                     Info_Adding ''octo/Alpha'', Publish alpha_params, Sleep 3,
                     Fetch ''asc'' (PStr ''2''),
                     Info_Adding ''octo/Gamma'', Publish gamma_params, Sleep 3]\<rparr>)"
proof -
  let ?w0 = "\<lparr>calls = 0, trace = [Info_Getting]\<rparr>"
  let ?w1 = "\<lparr>calls = 1, trace = [Info_Getting, Fetch ''asc'' (PInt 1),
                     Info_Adding ''octo/Alpha'', Publish alpha_params, Sleep 3]\<rparr>"
  let ?w2 = "\<lparr>calls = 2,
            trace = [Info_Getting, Fetch ''asc'' (PInt 1),
                     Info_Adding ''octo/Alpha'', Publish alpha_params, Sleep 3,
                     Fetch ''asc'' (PStr ''2''),
                     Info_Adding ''octo/Gamma'', Publish gamma_params, Sleep 3]\<rparr>"
  have "main lower (Suc (Suc (Suc 0))) gh_two_pages pb_done token [] =
          page_loop lower (Suc (Suc (Suc 0))) gh_two_pages pb_done token ''asc'' None
            (Running (PInt 1) (PInt 1)) False ?w0"
    by (rule main_first_run)
  also have "\<dots> = page_loop lower (Suc (Suc 0)) gh_two_pages pb_done token ''asc'' None
            (Running (PStr ''2'') (PStr ''2'')) False ?w1"
    by (rule page_loop_next)
       (simp_all add: two_pages_first publish_pb_done [OF alpha_params] full_name_alpha emit_def)
  also have "\<dots> = page_loop lower (Suc 0) gh_two_pages pb_done token ''asc'' None Stopped False ?w2"
    by (rule page_loop_next)
       (simp_all add: two_pages_second publish_pb_done [OF gamma_params] full_name_gamma emit_def)
  also have "\<dots> = Some (Returned, ?w2)"
    by (rule page_loop_stopped)
  finally show ?thesis .
qed

lemma four_pages_first:
  "status_code (gh_four_pages ''desc'' (PInt 1)) = 200"
  "json (gh_four_pages ''desc'' (PInt 1)) = map repo [''j'', ''i'', ''h'']"
  "after_yield (gh_four_pages ''desc'' (PInt 1)) (PInt 1) (PInt 1) =
     Running (PStr ''2'') (PStr ''4'')"
  by code_simp+

lemma four_pages_second:
  "status_code (gh_four_pages ''desc'' (PStr ''2'')) = 200"
  "json (gh_four_pages ''desc'' (PStr ''2'')) = map repo [''g'', ''f'', ''e'']"
  by code_simp+

lemma filter_four_pages:
  "filter_stars lower (map repo [''j'', ''i'', ''h'']) ''octo/F'' =
     (map repo [''j'', ''i'', ''h''], False)"
  "filter_stars lower (map repo [''g'', ''f'', ''e'']) ''octo/F'' = (map repo [''g''], True)"
  by code_simp+

theorem resolve_cursor_main_witness:
  "py_le (PInt 1) (PInt 1) \<and>
   status_code (gh_two_pages ''asc'' (PInt 1)) = 200 \<and>
   main lower (Suc (Suc (Suc 0))) gh_two_pages pb_done token [] =
     Some (Returned,
           \<lparr>calls = 2,
            trace = [Info_Getting, Fetch ''asc'' (PInt 1),
                     Info_Adding ''octo/Alpha'', Publish alpha_params, Sleep 3,
                     Fetch ''asc'' (PStr ''2''),
                     Info_Adding ''octo/Gamma'', Publish gamma_params, Sleep 3]\<rparr>) \<and>
   resolve_cursor [\<lparr>b_description = ''octo/F''\<rparr>] = Inr (''desc'', Some ''octo/F'') \<and>
   status_code (gh_four_pages ''desc'' (PInt 1)) = 200 \<and>
   py_le (PStr ''2'') (PStr ''4'') \<and>
   status_code (gh_four_pages ''desc'' (PStr ''2'')) = 200 \<and>
   main lower (Suc (Suc 0)) gh_four_pages pb_done token [\<lparr>b_description = ''octo/F''\<rparr>] =
     Some (Exit 0,
           \<lparr>calls = 4,
            trace = [Info_Getting, Fetch ''desc'' (PInt 1),
                     Info_Adding ''octo/j'', Publish (repo_params ''j''), Sleep 3,
                     Info_Adding ''octo/i'', Publish (repo_params ''i''), Sleep 3,
                     Info_Adding ''octo/h'', Publish (repo_params ''h''), Sleep 3,
                     Fetch ''desc'' (PStr ''2''),
                     Info_Adding ''octo/g'', Publish (repo_params ''g''), Sleep 3]\<rparr>)"
proof -
  let ?b = "\<lparr>b_description = ''octo/F''\<rparr>"
  let ?w1 = "\<lparr>calls = 3,
            trace = [Info_Getting, Fetch ''desc'' (PInt 1),
                     Info_Adding ''octo/j'', Publish (repo_params ''j''), Sleep 3,
                     Info_Adding ''octo/i'', Publish (repo_params ''i''), Sleep 3,
                     Info_Adding ''octo/h'', Publish (repo_params ''h''), Sleep 3]\<rparr>"
  let ?w2 = "\<lparr>calls = 4,
            trace = [Info_Getting, Fetch ''desc'' (PInt 1),
                     Info_Adding ''octo/j'', Publish (repo_params ''j''), Sleep 3,
                     Info_Adding ''octo/i'', Publish (repo_params ''i''), Sleep 3,
                     Info_Adding ''octo/h'', Publish (repo_params ''h''), Sleep 3,
                     Fetch ''desc'' (PStr ''2''),
                     Info_Adding ''octo/g'', Publish (repo_params ''g''), Sleep 3]\<rparr>"
  have one: "py_le (PInt 1) (PInt 1)" by simp
  have le: "py_le (PStr ''2'') (PStr ''4'')" by simp
  have pa1: "publish_all pb_done token (map repo [''j'', ''i'', ''h''])
               \<lparr>calls = 0, trace = [Info_Getting, Fetch ''desc'' (PInt 1)]\<rparr> = (None, ?w1)"
    by (simp add: publish_pb_done [OF repo_params] full_name_repo)
  have pa2: "publish_all pb_done token (map repo [''g''])
               (emit (Fetch ''desc'' (PStr ''2'')) ?w1) = (None, ?w2)"
    by (simp add: publish_pb_done [OF repo_params] full_name_repo emit_def)
  note first = resolve_cursor_main [where b = ?b and bs = "[]" and lw = lower and n = "Suc 0"
      and gh = gh_four_pages and pb = pb_done and tok = token and page = "PStr ''2''"
      and last' = "PStr ''4''" and sort_dir = "''desc''" and t = "''octo/F''" and hit = False
      and w = ?w1]
  note second = resolve_cursor_main [where b = ?b and bs = "[]" and lw = lower and n = 0
      and gh = gh_four_pages and pb = pb_done and tok = token and page = "PStr ''2''"
      and last' = "PStr ''4''" and sort_dir = "''desc''" and t = "''octo/F''" and hit = False
      and w = ?w1]
  from first four_pages_first(1)
  have "main lower (Suc (Suc 0)) gh_four_pages pb_done token [?b] =
        (case publish_all pb_done token
                (fst (filter_stars lower (json (gh_four_pages ''desc'' (PInt 1)))
                        (b_description ?b)))
                \<lparr>calls = 0, trace = [Info_Getting, Fetch ''desc'' (PInt 1)]\<rparr> of
           (Some out, w2) \<Rightarrow> Some (out, w2)
         | (None, w2) \<Rightarrow>
             if snd (filter_stars lower (json (gh_four_pages ''desc'' (PInt 1)))
                       (b_description ?b))
             then Some (Exit 0, w2)
             else page_loop lower (Suc 0) gh_four_pages pb_done token ''desc''
                    (Some (b_description ?b))
                    (after_yield (gh_four_pages ''desc'' (PInt 1)) (PInt 1) (PInt 1)) False w2)"
    by blast
  then have m1: "main lower (Suc (Suc 0)) gh_four_pages pb_done token [?b] =
      page_loop lower (Suc 0) gh_four_pages pb_done token ''desc'' (Some ''octo/F'')
        (Running (PStr ''2'') (PStr ''4'')) False ?w1"
    by (simp only: four_pages_first filter_four_pages fst_conv snd_conv pa1 prod.case
          option.case if_False bookmark.select_convs)
  from second le four_pages_second(1)
  have "page_loop lower (Suc 0) gh_four_pages pb_done token ''desc'' (Some ''octo/F'')
          (Running (PStr ''2'') (PStr ''4'')) False ?w1 =
        (case publish_all pb_done token
                (fst (filter_stars lower (json (gh_four_pages ''desc'' (PStr ''2''))) ''octo/F''))
                (emit (Fetch ''desc'' (PStr ''2'')) ?w1) of
           (Some out, w2) \<Rightarrow> Some (out, w2)
         | (None, w2) \<Rightarrow>
             if snd (filter_stars lower (json (gh_four_pages ''desc'' (PStr ''2''))) ''octo/F'')
             then Some (Exit 0, w2)
             else page_loop lower 0 gh_four_pages pb_done token ''desc'' (Some ''octo/F'')
                    (after_yield (gh_four_pages ''desc'' (PStr ''2'')) (PStr ''2'') (PStr ''4''))
                    False w2)"
    by blast
  then have m2: "page_loop lower (Suc 0) gh_four_pages pb_done token ''desc'' (Some ''octo/F'')
          (Running (PStr ''2'') (PStr ''4'')) False ?w1 = Some (Exit 0, ?w2)"
    by (simp only: four_pages_second filter_four_pages fst_conv snd_conv pa2 prod.case
          option.case if_True)
  have r: "resolve_cursor [?b] = Inr (''desc'', Some ''octo/F'')"
    using first by simp
  from m1 m2 r one le four_pages_first(1) four_pages_second(1) two_pages_first(1)
    first_run_two_pages
  show ?thesis by (simp only: simp_thms)
qed

section \<open>The page generator on whole listings\<close>

lemma ten_pages_first:
  "gh_ten_pages ''asc'' (PInt 1) =
     \<lparr>json = [repo ''a''], status_code = 200, link = Some ten_pages_first_link\<rparr>"
  by code_simp

lemma ten_pages_search: "re_search_link ten_pages_first_link = Some (''2'', ''10'')"
  by code_simp

lemma ten_pages_after:
  "after_yield (gh_ten_pages ''asc'' (PInt 1)) (PInt 1) (PInt 1) =
     Running (PStr ''2'') (PStr ''10'')"
  by code_simp

text \<open>
  Claim C1, at a listing of ten pages. The first response names the next page 2 and the
  last page 10; \<open>m.groups()\<close> returns them as the strings \<open>'2'\<close> and
  \<open>'10'\<close>, and \<open>'2' <= '10'\<close> is false for strings: the generator ends after
  page 1, for every bound of at least two steps. Pages 2 to 10 are never fetched.
\<close>

theorem get_github_stars_ten_pages:
  "link (gh_ten_pages ''asc'' (PInt 1)) = Some ten_pages_first_link \<and>
   re_search_link ten_pages_first_link = Some (''2'', ''10'') \<and>
   py_le (PStr ''2'') (PStr ''10'') = False \<and>
   get_github_stars (Suc (Suc n)) gh_ten_pages ''asc'' =
     Some ([gh_ten_pages ''asc'' (PInt 1)],
           \<lparr>calls = 0, trace = [Fetch ''asc'' (PInt 1)]\<rparr>)"
  by (simp add: ten_pages_first ten_pages_search get_github_stars_def gen_start_def
        gen_next_def ten_pages_after [unfolded ten_pages_first] emit_def)

text \<open>With nine pages every page number is one digit, the comparison of strings
  agrees with the comparison of numbers, and the generator fetches pages 1 to 9 once
  each, in order.\<close>

lemma get_github_stars_nine_pages:
  "map_option (\<lambda>(rs, w). (map json rs, fetched (trace w)))
     (get_github_stars 10 gh_nine_pages ''asc'') =
   Some (map (\<lambda>s. [s]) (take 9 ten_stars),
         [PInt 1, PStr ''2'', PStr ''3'', PStr ''4'', PStr ''5'', PStr ''6'', PStr ''7'',
          PStr ''8'', PStr ''9''])"
  by code_simp

text \<open>
  In general: when the last page \<open>L\<close> is between 2 and 9, the first response names
  the next page 2 and the last page \<open>L\<close>, every page \<open>k\<close> between 2 and
  \<open>L - 1\<close> names \<open>k + 1\<close> and \<open>L\<close>, and the header of page \<open>L\<close>
  names no next page, the generator ends (for every bound of at least \<open>L + 1\<close>
  steps) and has fetched the pages 1 to \<open>L\<close> once each, in order.
\<close>

lemma small_cases: "k \<le> 9 \<Longrightarrow> k \<in> {0, 1, 2, 3, 4, 5, 6, 7, 8, 9 :: nat}"
  by auto

lemma of_char_dec:
  "k \<le> 9 \<Longrightarrow> dec k = [c] \<Longrightarrow> (of_char c :: nat) = 48 + k"
  using small_cases [of k] by (auto simp: dec.simps [of k])

lemma dec_single: "k \<le> 9 \<Longrightarrow> \<exists>c. dec k = [c]"
  by (simp add: dec.simps [of k])

lemma str_le_dec:
  assumes "k \<le> 9" "l \<le> 9"
  shows "str_le (dec k) (dec l) = (k \<le> l)"
proof -
  from assms obtain a b where a: "dec k = [a]" and b: "dec l = [b]"
    using dec_single by blast
  from of_char_dec [OF assms(1) a] of_char_dec [OF assms(2) b]
  have "(of_char a :: nat) = 48 + k" "(of_char b :: nat) = 48 + l" .
  moreover have "(a = b) = (of_char a = (of_char b :: nat))"
    by simp
  ultimately show ?thesis
    by (auto simp: a b simp del: of_char_eq_iff)
qed

lemma gen_run_pages:
  assumes L: "L \<le> 9"
    and mid: "\<And>k. 2 \<le> k \<Longrightarrow> k < L \<Longrightarrow>
      \<exists>h. link (gh d (PStr (dec k))) = Some h \<and>
          re_search_link h = Some (dec (Suc k), dec L)"
    and lst: "\<exists>h. link (gh d (PStr (dec L))) = Some h \<and> re_search_link h = None"
  shows "2 \<le> k \<Longrightarrow> k \<le> L \<Longrightarrow>
    \<exists>rs w'. gen_run (Suc (Suc (L - k)) + n) gh d (Running (PStr (dec k)) (PStr (dec L))) w =
                Some (rs, w') \<and>
             map json rs = map (\<lambda>j. json (gh d (PStr (dec j)))) [k ..< Suc L] \<and>
             fetched (trace w') = fetched (trace w) @ map (\<lambda>j. PStr (dec j)) [k ..< Suc L] \<and>
             calls w' = calls w"
proof (induction "L - k" arbitrary: k w)
  case 0
  then have k: "k = L" by simp
  from lst obtain h where h: "link (gh d (PStr (dec L))) = Some h" "re_search_link h = None"
    by blast
  have le: "str_le (dec L) (dec L)"
    using L by (simp add: str_le_dec)
  have "gen_next gh d (Running (PStr (dec L)) (PStr (dec L))) w =
          Some (gh d (PStr (dec L)), Stopped, emit (Fetch d (PStr (dec L))) w)"
    by (simp add: gen_next_def after_yield_def h le)
  then show ?case
    by (simp add: k gen_next_def emit_def fetched_append)
next
  case (Suc m)
  then have lt: "k < L" by simp
  from mid [OF Suc.prems(1) lt] obtain h where
    h: "link (gh d (PStr (dec k))) = Some h" "re_search_link h = Some (dec (Suc k), dec L)"
    by blast
  have le: "str_le (dec k) (dec L)"
    using L lt by (simp add: str_le_dec)
  have step: "gen_next gh d (Running (PStr (dec k)) (PStr (dec L))) w =
          Some (gh d (PStr (dec k)), Running (PStr (dec (Suc k))) (PStr (dec L)),
                emit (Fetch d (PStr (dec k))) w)"
    by (simp add: gen_next_def after_yield_def h le)
  have m: "m = L - Suc k" using Suc.hyps(2) by simp
  from Suc.hyps(1) [OF m, of "emit (Fetch d (PStr (dec k))) w"] Suc.prems lt
  obtain rs w' where r:
    "gen_run (Suc (Suc (L - Suc k)) + n) gh d (Running (PStr (dec (Suc k))) (PStr (dec L)))
       (emit (Fetch d (PStr (dec k))) w) = Some (rs, w')"
    "map json rs = map (\<lambda>j. json (gh d (PStr (dec j)))) [Suc k ..< Suc L]"
    "fetched (trace w') = fetched (trace (emit (Fetch d (PStr (dec k))) w)) @
       map (\<lambda>j. PStr (dec j)) [Suc k ..< Suc L]"
    "calls w' = calls (emit (Fetch d (PStr (dec k))) w)"
    by auto
  have fuel: "Suc (Suc (L - k)) + n = Suc (Suc (Suc (L - Suc k)) + n)"
    using lt by simp
  have upt: "[k ..< Suc L] = k # [Suc k ..< Suc L]"
    using lt by (simp add: upt_rec)
  show ?case
    unfolding fuel upt
    using r by (simp add: step emit_def fetched_append)
qed

lemma get_github_stars_one_digit:
  assumes L: "2 \<le> L" "L \<le> 9"
    and first: "\<exists>h. link (gh d (PInt 1)) = Some h \<and> re_search_link h = Some (dec 2, dec L)"
    and mid: "\<And>k. 2 \<le> k \<Longrightarrow> k < L \<Longrightarrow>
      \<exists>h. link (gh d (PStr (dec k))) = Some h \<and>
          re_search_link h = Some (dec (Suc k), dec L)"
    and lst: "\<exists>h. link (gh d (PStr (dec L))) = Some h \<and> re_search_link h = None"
  shows "\<exists>rs w. get_github_stars (Suc L + n) gh d = Some (rs, w) \<and>
           map json rs =
             json (gh d (PInt 1)) # map (\<lambda>j. json (gh d (PStr (dec j)))) [2 ..< Suc L] \<and>
           fetched (trace w) = PInt 1 # map (\<lambda>j. PStr (dec j)) [2 ..< Suc L]"
proof -
  let ?w = "emit (Fetch d (PInt 1)) \<lparr>calls = 0, trace = []\<rparr>"
  from first obtain h where
    h: "link (gh d (PInt 1)) = Some h" "re_search_link h = Some (dec 2, dec L)"
    by blast
  have step: "gen_next gh d gen_start \<lparr>calls = 0, trace = []\<rparr> =
          Some (gh d (PInt 1), Running (PStr (dec 2)) (PStr (dec L)), ?w)"
    by (simp add: gen_next_def gen_start_def after_yield_def h)
  from gen_run_pages [where L = L and gh = gh and d = d and k = 2 and n = n and w = ?w,
      OF L(2) mid lst] L
  obtain rs w' where r:
    "gen_run (Suc (Suc (L - 2)) + n) gh d (Running (PStr (dec 2)) (PStr (dec L))) ?w =
       Some (rs, w')"
    "map json rs = map (\<lambda>j. json (gh d (PStr (dec j)))) [2 ..< Suc L]"
    "fetched (trace w') = fetched (trace ?w) @ map (\<lambda>j. PStr (dec j)) [2 ..< Suc L]"
    by auto
  have fuel: "Suc L + n = Suc (Suc (Suc (L - 2)) + n)"
    using L by simp
  show ?thesis
    unfolding get_github_stars_def fuel
    using r by (simp add: step emit_def)
qed

text \<open>A listing of one page has no \<open>Link\<close> header: \<open>page\<close> and
  \<open>last\<close> stay 1, and the generator asks for page 1 again, for ever. A first run
  over such a listing never ends.\<close>

lemma one_page_first:
  "status_code (gh_one_page ''asc'' (PInt 1)) = 200"
  "json (gh_one_page ''asc'' (PInt 1)) = [alpha, gamma]"
  "link (gh_one_page ''asc'' (PInt 1)) = None"
  by code_simp+

lemma one_page_gen_next:
  "gen_next gh_one_page ''asc'' gen_start w =
     Some (gh_one_page ''asc'' (PInt 1), gen_start, emit (Fetch ''asc'' (PInt 1)) w)"
  by (simp add: gen_next_def gen_start_def after_yield_def one_page_first)

lemma get_github_stars_one_page_loops:
  "gen_run n gh_one_page ''asc'' gen_start w = None"
  by (induction n arbitrary: w) (simp_all add: one_page_gen_next)

lemma get_github_stars_one_page: "get_github_stars n gh_one_page ''asc'' = None"
  by (simp add: get_github_stars_def get_github_stars_one_page_loops)

lemma publish_all_pb_done:
  "(\<forall>s \<in> set stars. \<exists>p. add_bookmark_params s tok = Inr p) \<Longrightarrow>
   \<exists>w'. publish_all pb_done tok stars w = (None, w')"
proof (induction stars arbitrary: w)
  case Nil
  show ?case by simp
next
  case (Cons s stars)
  then obtain p where p: "add_bookmark_params s tok = Inr p" by auto
  from Cons show ?case
    by (simp add: publish_pb_done [OF p])
qed

lemma page_loop_one_page:
  "page_loop lw n gh_one_page pb_done token ''asc'' None (Running (PInt 1) (PInt 1)) False w = None"
proof (induction n arbitrary: w)
  case 0
  show ?case by simp
next
  case (Suc n)
  have "\<forall>s \<in> set [alpha, gamma]. \<exists>p. add_bookmark_params s token = Inr p"
    by (simp add: alpha_params gamma_params)
  then obtain w' where pa:
    "publish_all pb_done token [alpha, gamma] (emit (Fetch ''asc'' (PInt 1)) w) = (None, w')"
    using publish_all_pb_done by blast
  have "page_loop lw (Suc n) gh_one_page pb_done token ''asc'' None (Running (PInt 1) (PInt 1))
          False w =
        page_loop lw n gh_one_page pb_done token ''asc'' None (Running (PInt 1) (PInt 1)) False w'"
    by (rule page_loop_next)
       (simp_all add: one_page_first pa after_yield_def del: publish_all.simps)
  with Suc show ?case by simp
qed

lemma first_run_one_page_never_ends:
  "main lw n gh_one_page pb_done token [] = None"
  by (simp add: main_first_run page_loop_one_page)

section \<open>Two runs in succession\<close>

lemma three_desc_first:
  "status_code (gh_three ''desc'' (PInt 1)) = 200"
  "json (gh_three ''desc'' (PInt 1)) = map repo [''c'', ''b'', ''a'']"
  "link (gh_three ''desc'' (PInt 1)) = None"
  by code_simp+

lemma filter_three:
  "filter_stars lower (map repo [''c'', ''b'', ''a'']) ''octo/a'' = (map repo [''c'', ''b''], True)"
  "filter_stars lower (map repo [''c'', ''b'', ''a'']) ''octo/b'' = (map repo [''c''], True)"
  by code_simp+

lemma publish_pb_exists:
  "add_bookmark_params star tok = Inr p \<Longrightarrow>
   publish pb_exists tok star w =
     (None,
      w\<lparr>calls := Suc (calls w),
        trace := trace w @ [Info_Adding (full_name star), Publish p,
                           Warn_Result ''item already exists'', Sleep 3]\<rparr>)"
  by (simp add: publish_plain pb_exists_def lower_def lower_char_def SLEEP_TIME_def)

text \<open>
  Claim C6, at three stars a, b, c (oldest first) on one page, with a the most recent
  bookmark before run 1. Run 1 walks the listing newest first and publishes c, then b:
  the bookmark created last is b. Run 2 sees the same listing and b as the most recent
  bookmark: it publishes c again (Pinboard refuses it), one request instead of none.
\<close>

theorem main_twice_republishes:
  "main lower (Suc n) gh_three pb_done token [\<lparr>b_description = ''octo/a''\<rparr>] =
     Some (Exit 0,
           \<lparr>calls = 2,
            trace = [Info_Getting, Fetch ''desc'' (PInt 1),
                     Info_Adding ''octo/c'', Publish (repo_params ''c''), Sleep 3,
                     Info_Adding ''octo/b'', Publish (repo_params ''b''), Sleep 3]\<rparr>) \<and>
   p_description (repo_params ''b'') = ''octo/b'' \<and>
   main lower (Suc n) gh_three pb_exists token [\<lparr>b_description = ''octo/b''\<rparr>] =
     Some (Exit 0,
           \<lparr>calls = 1,
            trace = [Info_Getting, Fetch ''desc'' (PInt 1),
                     Info_Adding ''octo/c'', Publish (repo_params ''c''),
                     Warn_Result ''item already exists'', Sleep 3]\<rparr>)"
proof -
  let ?w0 = "\<lparr>calls = 0, trace = [Info_Getting]\<rparr>"
  have pa1: "publish_all pb_done token (map repo [''c'', ''b''])
               (emit (Fetch ''desc'' (PInt 1)) ?w0) =
     (None,
           \<lparr>calls = 2,
            trace = [Info_Getting, Fetch ''desc'' (PInt 1),
                     Info_Adding ''octo/c'', Publish (repo_params ''c''), Sleep 3,
                     Info_Adding ''octo/b'', Publish (repo_params ''b''), Sleep 3]\<rparr>)"
    by (simp add: publish_pb_done [OF repo_params] full_name_repo emit_def)
  have pa2: "publish_all pb_exists token (map repo [''c''])
               (emit (Fetch ''desc'' (PInt 1)) ?w0) =
     (None,
           \<lparr>calls = 1,
            trace = [Info_Getting, Fetch ''desc'' (PInt 1),
                     Info_Adding ''octo/c'', Publish (repo_params ''c''),
                     Warn_Result ''item already exists'', Sleep 3]\<rparr>)"
    by (simp add: publish_pb_exists [OF repo_params] full_name_repo emit_def)
  have "page_loop lower (Suc n) gh_three pb_done token ''desc'' (Some ''octo/a'')
              (Running (PInt 1) (PInt 1)) False ?w0 =
          (case publish_all pb_done token (map repo [''c'', ''b''])
                  (emit (Fetch ''desc'' (PInt 1)) ?w0) of
             (Some out, w2) \<Rightarrow> Some (out, w2)
           | (None, w2) \<Rightarrow> Some (Exit 0, w2))"
    by (rule page_loop_found_step)
       (simp_all add: three_desc_first filter_three del: list.map)
  then have r1: "page_loop lower (Suc n) gh_three pb_done token ''desc'' (Some ''octo/a'')
              (Running (PInt 1) (PInt 1)) False ?w0 =
     Some (Exit 0,
           \<lparr>calls = 2,
            trace = [Info_Getting, Fetch ''desc'' (PInt 1),
                     Info_Adding ''octo/c'', Publish (repo_params ''c''), Sleep 3,
                     Info_Adding ''octo/b'', Publish (repo_params ''b''), Sleep 3]\<rparr>)"
    by (simp only: pa1 prod.case option.case)
  have "page_loop lower (Suc n) gh_three pb_exists token ''desc'' (Some ''octo/b'')
              (Running (PInt 1) (PInt 1)) False ?w0 =
          (case publish_all pb_exists token (map repo [''c''])
                  (emit (Fetch ''desc'' (PInt 1)) ?w0) of
             (Some out, w2) \<Rightarrow> Some (out, w2)
           | (None, w2) \<Rightarrow> Some (Exit 0, w2))"
    by (rule page_loop_found_step)
       (simp_all add: three_desc_first filter_three del: list.map)
  then have r2: "page_loop lower (Suc n) gh_three pb_exists token ''desc'' (Some ''octo/b'')
              (Running (PInt 1) (PInt 1)) False ?w0 =
     Some (Exit 0,
           \<lparr>calls = 1,
            trace = [Info_Getting, Fetch ''desc'' (PInt 1),
                     Info_Adding ''octo/c'', Publish (repo_params ''c''),
                     Warn_Result ''item already exists'', Sleep 3]\<rparr>)"
    by (simp only: pa2 prod.case option.case)
  show ?thesis
    by (simp add: main_resume r1 r2 repo_params_def del: page_loop.simps)
qed

text \<open>When the most recent bookmark is the first entry of the first page in descending
  order (so after a first run that published every star, oldest first), the next run
  publishes nothing.\<close>

lemma filter_stars_head:
  "lw (full_name s) = lw t \<Longrightarrow> filter_stars lw (s # rest) t = ([], True)"
  by (simp add: filter_stars_def filter_stars_from.simps [of lw 0])

lemma main_resume_nothing_new:
  assumes "status_code (gh ''desc'' (PInt 1)) = 200"
    and "json (gh ''desc'' (PInt 1)) = s # rest"
    and "lw (full_name s) = lw (b_description b)"
  shows "main lw (Suc n) gh pb tok (b # bs) =
           Some (Exit 0, \<lparr>calls = 0, trace = [Info_Getting, Fetch ''desc'' (PInt 1)]\<rparr>)"
  using assms
  by (simp add: main_resume page_loop_found_step [where survivors = "[]"] filter_stars_head
        emit_def del: page_loop.simps)

end
